theory Spec2Isabelle
  imports Main "HOL-Library.Log_Nat"
begin

section \<open>JavaScript values\<close>

text \<open>
  The values the triage handlers compute with are the values \<^verbatim>\<open>JSON.parse\<close> produces,
  plus what the handlers store into them. A Number is an IEEE 754 binary64 value: a
  rational that is exactly representable, an infinity, or NaN (the sign of zero is not
  modelled). Strings are sequences of 8-bit code units: the texts covered are those of
  the first 256 characters. An array carries, besides its elements, the named properties
  assigned to it after parsing.
\<close>

datatype jsnum = NaN | PosInf | NegInf | Fin rat

datatype jsval =
    JNull
  | JBool bool
  | JNum jsnum
  | JStr string
  | JArr "jsval list" "(string \<times> jsval) list"
  | JObj "(string \<times> jsval) list"

datatype error = TypeError | SyntaxError | Error string

text \<open>A computation that may throw: \<open>Inl\<close> is the exception.\<close>

definition bnd :: "error + 'a \<Rightarrow> ('a \<Rightarrow> error + 'b) \<Rightarrow> error + 'b" where
  "bnd m f = (case m of Inl e \<Rightarrow> Inl e | Inr x \<Rightarrow> f x)"

section \<open>Number arithmetic (IEEE 754 binary64, round to nearest, ties to even)\<close>

function pow2 :: "int \<Rightarrow> rat" where
  "pow2 k = (if k = 0 then 1 else if 0 < k then 2 * pow2 (k - 1) else pow2 (k + 1) / 2)"
  by pat_completeness auto
termination
  by (relation "measure (\<lambda>k. nat \<bar>k\<bar>)") auto

declare pow2.simps [simp del]

text \<open>\<open>binade x\<close> is the exponent \<open>e\<close> with \<open>2^e \<le> |x| < 2^(e+1)\<close>, for \<open>x \<noteq> 0\<close>.\<close>

definition binade :: "rat \<Rightarrow> int" where
  "binade x =
     (let (p, q) = quotient_of \<bar>x\<bar>;
          k = bitlen p - bitlen q
      in if pow2 k \<le> \<bar>x\<bar> then k else k - 1)"

definition round_half_even :: "rat \<Rightarrow> int" where
  "round_half_even r =
     (let n = \<lfloor>r\<rfloor>; d = r - of_int n
      in if d < 1 / 2 then n
         else if 1 / 2 < d then n + 1
         else if even n then n else n + 1)"

text \<open>The quantum of the binade of \<open>x\<close>: 52 fraction bits, subnormals below \<open>2^-1022\<close>.\<close>

definition quantum :: "rat \<Rightarrow> rat" where
  "quantum x = pow2 (max (binade x) (- 1022) - 52)"

definition nearest :: "rat \<Rightarrow> rat" where
  "nearest x = (if x = 0 then 0 else quantum x * of_int (round_half_even (x / quantum x)))"

text \<open>A result of magnitude \<open>2^1024\<close> or more overflows to an infinity.\<close>

definition fl :: "rat \<Rightarrow> jsnum" where
  "fl x =
     (let y = nearest x
      in if y \<noteq> 0 \<and> 1024 \<le> binade y then (if 0 < x then PosInf else NegInf) else Fin y)"

fun js_mul :: "jsnum \<Rightarrow> jsnum \<Rightarrow> jsnum" where
  "js_mul (Fin x) (Fin y) = fl (x * y)"
| "js_mul NaN _ = NaN"
| "js_mul _ NaN = NaN"
| "js_mul (Fin x) PosInf = (if x = 0 then NaN else if 0 < x then PosInf else NegInf)"
| "js_mul (Fin x) NegInf = (if x = 0 then NaN else if 0 < x then NegInf else PosInf)"
| "js_mul PosInf (Fin y) = (if y = 0 then NaN else if 0 < y then PosInf else NegInf)"
| "js_mul NegInf (Fin y) = (if y = 0 then NaN else if 0 < y then NegInf else PosInf)"
| "js_mul PosInf PosInf = PosInf"
| "js_mul NegInf NegInf = PosInf"
| "js_mul PosInf NegInf = NegInf"
| "js_mul NegInf PosInf = NegInf"

fun js_add :: "jsnum \<Rightarrow> jsnum \<Rightarrow> jsnum" where
  "js_add (Fin x) (Fin y) = fl (x + y)"
| "js_add NaN _ = NaN"
| "js_add _ NaN = NaN"
| "js_add PosInf NegInf = NaN"
| "js_add NegInf PosInf = NaN"
| "js_add PosInf _ = PosInf"
| "js_add _ PosInf = PosInf"
| "js_add NegInf _ = NegInf"
| "js_add _ NegInf = NegInf"

text \<open>\<^verbatim>\<open>Math.round\<close>: the nearest integer, a tie going toward \<open>+\<infinity>\<close>.\<close>

fun Math_round :: "jsnum \<Rightarrow> jsnum" where
  "Math_round (Fin x) = Fin (of_int \<lfloor>x + 1 / 2\<rfloor>)"
| "Math_round n = n"

text \<open>A decimal literal, in the source or in a string, denotes the nearest binary64 value.\<close>

definition lit :: "rat \<Rightarrow> jsnum" where
  "lit x = fl x"

section \<open>Strings\<close>

definition code :: "char \<Rightarrow> int" where
  "code c = of_char c"

text \<open>White space and line terminators, as \<^verbatim>\<open>trim\<close> and the Number conversion skip them.\<close>

definition is_js_space :: "char \<Rightarrow> bool" where
  "is_js_space c = (code c \<in> {9, 10, 11, 12, 13, 32, 160})"

definition trim :: "string \<Rightarrow> string" where
  "trim s = rev (dropWhile is_js_space (rev (dropWhile is_js_space s)))"

definition is_digit :: "char \<Rightarrow> bool" where
  "is_digit c = (48 \<le> code c \<and> code c \<le> 57)"

text \<open>The value of a digit in a base up to 16; \<open>None\<close> when the character is no digit of it.\<close>

definition digit_in :: "int \<Rightarrow> char \<Rightarrow> int option" where
  "digit_in base c =
     (let n = code c;
          v = (if 48 \<le> n \<and> n \<le> 57 then n - 48
               else if 97 \<le> n \<and> n \<le> 102 then n - 87
               else if 65 \<le> n \<and> n \<le> 70 then n - 55
               else 16)
      in if v < base then Some v else None)"

definition digits_val :: "int \<Rightarrow> string \<Rightarrow> int" where
  "digits_val base ds = foldl (\<lambda>a c. base * a + (case digit_in base c of Some v \<Rightarrow> v | None \<Rightarrow> 0)) 0 ds"

function ipow :: "rat \<Rightarrow> int \<Rightarrow> rat" where
  "ipow b k = (if k = 0 then 1 else if 0 < k then b * ipow b (k - 1) else ipow b (k + 1) / b)"
  by pat_completeness auto
termination
  by (relation "measure (\<lambda>(b, k). nat \<bar>k\<bar>)") auto

declare ipow.simps [simp del]

text \<open>The exponent part of a decimal literal: empty, or \<^verbatim>\<open>e\<close> with a signed integer.\<close>

definition exponent_part :: "string \<Rightarrow> int option" where
  "exponent_part r =
     (case r of
        [] \<Rightarrow> Some 0
      | c # r1 \<Rightarrow>
          if c = CHR ''e'' \<or> c = CHR ''E'' then
            (let neg = (r1 \<noteq> [] \<and> hd r1 = CHR ''-'');
                 r2 = (if r1 \<noteq> [] \<and> (hd r1 = CHR ''+'' \<or> hd r1 = CHR ''-'') then tl r1 else r1)
             in if r2 \<noteq> [] \<and> list_all is_digit r2
                then Some ((if neg then - 1 else 1) * digits_val 10 r2) else None)
          else None)"

text \<open>
  An unsigned decimal literal: digits, an optional fraction, an optional exponent, with a
  digit before or after the point. The result is the exact value written.
\<close>

definition unsigned_decimal :: "string \<Rightarrow> rat option" where
  "unsigned_decimal s =
     (let ip = takeWhile is_digit s;
          r1 = dropWhile is_digit s;
          dot = (r1 \<noteq> [] \<and> hd r1 = CHR ''.'');
          fp = (if dot then takeWhile is_digit (tl r1) else []);
          r2 = (if dot then dropWhile is_digit (tl r1) else r1)
      in if ip = [] \<and> fp = [] then None
         else case exponent_part r2 of
                None \<Rightarrow> None
              | Some e \<Rightarrow> Some (of_int (digits_val 10 (ip @ fp)) * ipow 10 (e - int (length fp))))"

definition js_neg :: "jsnum \<Rightarrow> jsnum" where
  "js_neg n = (case n of NaN \<Rightarrow> NaN | PosInf \<Rightarrow> NegInf | NegInf \<Rightarrow> PosInf | Fin x \<Rightarrow> Fin (- x))"

definition unsigned_literal :: "string \<Rightarrow> jsnum" where
  "unsigned_literal s =
     (if s = ''Infinity'' then PosInf
      else case unsigned_decimal s of None \<Rightarrow> NaN | Some x \<Rightarrow> fl x)"

definition radix_literal :: "int \<Rightarrow> string \<Rightarrow> jsnum" where
  "radix_literal base ds =
     (if ds \<noteq> [] \<and> list_all (\<lambda>c. digit_in base c \<noteq> None) ds
      then fl (of_int (digits_val base ds)) else NaN)"

text \<open>The Number a String converts to (\<^verbatim>\<open>StringToNumber\<close> of the language).\<close>

definition StringToNumber :: "string \<Rightarrow> jsnum" where
  "StringToNumber s =
     (let t = trim s
      in case t of
           [] \<Rightarrow> Fin 0
         | c # r \<Rightarrow>
             if c = CHR ''+'' then unsigned_literal r
             else if c = CHR ''-'' then js_neg (unsigned_literal r)
             else if c = CHR ''0'' \<and> r \<noteq> [] \<and> hd r \<in> {CHR ''x'', CHR ''X''} then radix_literal 16 (tl r)
             else if c = CHR ''0'' \<and> r \<noteq> [] \<and> hd r \<in> {CHR ''o'', CHR ''O''} then radix_literal 8 (tl r)
             else if c = CHR ''0'' \<and> r \<noteq> [] \<and> hd r \<in> {CHR ''b'', CHR ''B''} then radix_literal 2 (tl r)
             else unsigned_literal t)"

section \<open>Coercions and property access\<close>

fun truthy :: "jsval \<Rightarrow> bool" where
  "truthy JNull = False"
| "truthy (JBool b) = b"
| "truthy (JNum n) = (n \<noteq> NaN \<and> n \<noteq> Fin 0)"
| "truthy (JStr s) = (s \<noteq> [])"
| "truthy (JArr xs ps) = True"
| "truthy (JObj ps) = True"

text \<open>The result of reading a property is a value or \<^verbatim>\<open>undefined\<close> (\<open>None\<close>), which is falsy.\<close>

fun truthy_opt :: "jsval option \<Rightarrow> bool" where
  "truthy_opt None = False"
| "truthy_opt (Some v) = truthy v"

text \<open>
  \<^verbatim>\<open>v.k\<close> for the property names the handlers read (\<^verbatim>\<open>scores\<close>,
  \<^verbatim>\<open>overall_priority\<close>, ...), none of which a built-in prototype defines: an own
  property of an object or array, \<^verbatim>\<open>undefined\<close> on any other value, and a TypeError on
  \<^verbatim>\<open>null\<close>.
\<close>

fun Get :: "jsval \<Rightarrow> string \<Rightarrow> error + jsval option" where
  "Get JNull k = Inl TypeError"
| "Get (JObj ps) k = Inr (map_of ps k)"
| "Get (JArr xs ps) k = Inr (map_of ps k)"
| "Get v k = Inr None"

text \<open>
  Converting an object to a primitive calls its \<^verbatim>\<open>toString\<close>. A parsed object whose own
  \<^verbatim>\<open>toString\<close> property hides the inherited method has no callable conversion left
  (the inherited \<^verbatim>\<open>valueOf\<close> returns the object itself), which is a TypeError; an array
  converts each of its elements in turn.
\<close>

fun no_primitive :: "jsval \<Rightarrow> bool" where
  "no_primitive (JObj ps) = (''toString'' \<in> fst ` set ps)"
| "no_primitive (JArr xs ps) = (\<exists>x \<in> set xs. no_primitive x)"
| "no_primitive v = False"

text \<open>
  \<^verbatim>\<open>ToNumber\<close>. An object converts through the text \<^verbatim>\<open>[object Object]\<close> to NaN. An
  array converts through the comma-separated texts of its elements: the empty text for no
  element or a \<^verbatim>\<open>null\<close>, the element's own text for one element (a Number's text
  converts back to the Number), and a text with a comma, which is no numeral, otherwise.
\<close>

fun ToNumber :: "jsval \<Rightarrow> error + jsnum" where
  "ToNumber JNull = Inr (Fin 0)"
| "ToNumber (JBool b) = Inr (Fin (if b then 1 else 0))"
| "ToNumber (JNum n) = Inr n"
| "ToNumber (JStr s) = Inr (StringToNumber s)"
| "ToNumber (JObj ps) = (if no_primitive (JObj ps) then Inl TypeError else Inr NaN)"
| "ToNumber (JArr xs ps) =
     (if no_primitive (JArr xs ps) then Inl TypeError
      else case xs of
             [] \<Rightarrow> Inr (Fin 0)
           | [x] \<Rightarrow> (case x of JBool b \<Rightarrow> Inr NaN | _ \<Rightarrow> ToNumber x)
           | _ \<Rightarrow> Inr NaN)"

section \<open>The priority calculator (\<^verbatim>\<open>calculateOverallPriority\<close>)\<close>

definition effortScores :: "(string \<times> jsnum) list" where
  "effortScores =
     [(''XS'', Fin 100), (''S'', Fin 80), (''M'', Fin 60), (''L'', Fin 40), (''XL'', Fin 20)]"

text \<open>
  \<^verbatim>\<open>effortScores\<close> is an object literal, so besides its five own properties it answers to
  the names every object inherits, with a built-in function (or, for \<^verbatim>\<open>__proto__\<close>, the
  prototype object): a truthy value whose Number is NaN.
\<close>

definition inherited_names :: "string list" where
  "inherited_names =
     [''constructor'', ''__proto__'', ''hasOwnProperty'', ''isPrototypeOf'',
      ''propertyIsEnumerable'', ''toLocaleString'', ''toString'', ''valueOf'',
      ''__defineGetter__'', ''__defineSetter__'', ''__lookupGetter__'', ''__lookupSetter__'']"

datatype looked_up = Undefined | Own jsnum | Inherited

definition effortScores_named :: "string \<Rightarrow> looked_up" where
  "effortScores_named k =
     (case map_of effortScores k of
        Some n \<Rightarrow> Own n
      | None \<Rightarrow> if k \<in> set inherited_names then Inherited else Undefined)"

text \<open>
  \<^verbatim>\<open>effortScores[v]\<close>: the key is the text of \<open>v\<close>. The text of a Number, of a boolean,
  of \<^verbatim>\<open>null\<close> and of \<^verbatim>\<open>undefined\<close>, \<^verbatim>\<open>[object Object]\<close> and a text with a comma
  name no property of \<^verbatim>\<open>effortScores\<close>.
\<close>

fun effortScores_at :: "jsval option \<Rightarrow> error + looked_up" where
  "effortScores_at (Some (JStr s)) = Inr (effortScores_named s)"
| "effortScores_at (Some (JObj ps)) = (if no_primitive (JObj ps) then Inl TypeError else Inr Undefined)"
| "effortScores_at (Some (JArr xs ps)) =
     (if no_primitive (JArr xs ps) then Inl TypeError
      else case xs of
             [x] \<Rightarrow> (case x of
                       JStr s \<Rightarrow> Inr (effortScores_named s)
                     | JArr ys qs \<Rightarrow> effortScores_at (Some x)
                     | _ \<Rightarrow> Inr Undefined)
           | _ \<Rightarrow> Inr Undefined)"
| "effortScores_at v = Inr Undefined"

text \<open>
  \<^verbatim>\<open>const effortScore = scores.effort_score || effortScores[scores.effort_size] || 50\<close>,
  as the Number the product with the weight converts it to.
\<close>

definition effortScore :: "jsval \<Rightarrow> error + jsnum" where
  "effortScore scores =
     bnd (Get scores ''effort_score'') (\<lambda>es.
       if truthy_opt es then ToNumber (the es)
       else bnd (Get scores ''effort_size'') (\<lambda>sz.
            bnd (effortScores_at sz) (\<lambda>r.
              case r of
                Own n \<Rightarrow> Inr n
              | Inherited \<Rightarrow> Inr NaN
              | Undefined \<Rightarrow> Inr (Fin 50))))"

text \<open>\<^verbatim>\<open>(scores.k || 0) * weight\<close>\<close>

definition weighted :: "jsval \<Rightarrow> string \<Rightarrow> jsnum \<Rightarrow> error + jsnum" where
  "weighted scores k weight =
     bnd (Get scores k) (\<lambda>v.
     bnd (if truthy_opt v then ToNumber (the v) else Inr (Fin 0)) (\<lambda>n.
       Inr (js_mul n weight)))"

definition calculateOverallPriority :: "jsval \<Rightarrow> error + jsnum" where
  "calculateOverallPriority scores =
     (let businessWeight = lit (35 / 100);
          strategicWeight = lit (25 / 100);
          crossClientWeight = lit (25 / 100);
          effortWeight = lit (15 / 100)
      in bnd (effortScore scores) (\<lambda>effortScore.
         bnd (weighted scores ''business_impact'' businessWeight) (\<lambda>a.
         bnd (weighted scores ''strategic_fit'' strategicWeight) (\<lambda>b.
         bnd (weighted scores ''cross_client_value'' crossClientWeight) (\<lambda>c.
           Inr (Math_round (js_add (js_add (js_add a b) c) (js_mul effortScore effortWeight))))))))"

section \<open>The weighted formula, as a specification\<close>

text \<open>
  The formula in exact arithmetic, to compare \<open>calculateOverallPriority\<close> with. A score
  that is missing counts 0. The effort is read in two ways: \<open>claimed_effort\<close> takes
  \<^verbatim>\<open>effort_score\<close> whenever it is present; \<open>effort_by_design\<close> takes it when it is
  present and not zero. Both fall back to the table on \<^verbatim>\<open>effort_size\<close>, then to 50.
\<close>

definition weighted_sum :: "rat \<Rightarrow> rat \<Rightarrow> rat \<Rightarrow> rat \<Rightarrow> rat" where
  "weighted_sum bi sf cc e = 35 / 100 * bi + 25 / 100 * sf + 25 / 100 * cc + 15 / 100 * e"

definition round_half_up :: "rat \<Rightarrow> int" where
  "round_half_up x = \<lfloor>x + 1 / 2\<rfloor>"

definition in_range :: "jsval option \<Rightarrow> bool" where
  "in_range v = (case v of None \<Rightarrow> True | Some (JNum (Fin x)) \<Rightarrow> 0 \<le> x \<and> x \<le> 100 | _ \<Rightarrow> False)"

definition size_label :: "jsval option \<Rightarrow> bool" where
  "size_label v = (case v of None \<Rightarrow> True | Some (JStr s) \<Rightarrow> s \<notin> set inherited_names | _ \<Rightarrow> False)"

definition number_or_zero :: "jsval option \<Rightarrow> rat" where
  "number_or_zero v = (case v of Some (JNum (Fin x)) \<Rightarrow> x | _ \<Rightarrow> 0)"

definition table_effort :: "jsval option \<Rightarrow> rat" where
  "table_effort sz =
     (case sz of
        Some (JStr s) \<Rightarrow>
          if s = ''XS'' then 100 else if s = ''S'' then 80 else if s = ''M'' then 60
          else if s = ''L'' then 40 else if s = ''XL'' then 20 else 50
      | _ \<Rightarrow> 50)"


definition effort_by_design :: "jsval option \<Rightarrow> jsval option \<Rightarrow> rat" where
  "effort_by_design es sz =
     (case es of Some (JNum (Fin x)) \<Rightarrow> if x = 0 then table_effort sz else x | _ \<Rightarrow> table_effort sz)"


definition exact_overall :: "(string \<times> jsval) list \<Rightarrow> rat" where
  "exact_overall ps =
     weighted_sum (number_or_zero (map_of ps ''business_impact''))
       (number_or_zero (map_of ps ''strategic_fit''))
       (number_or_zero (map_of ps ''cross_client_value''))
       (effort_by_design (map_of ps ''effort_score'') (map_of ps ''effort_size''))"

section \<open>String operations of the language\<close>

fun starts_with :: "string \<Rightarrow> string \<Rightarrow> bool" where
  "starts_with [] s = True"
| "starts_with (p # ps) [] = False"
| "starts_with (p # ps) (c # cs) = (p = c \<and> starts_with ps cs)"

text \<open>\<^verbatim>\<open>s.includes(pat)\<close>\<close>

fun str_includes :: "string \<Rightarrow> string \<Rightarrow> bool" where
  "str_includes s [] = (s = [])"
| "str_includes s (c # cs) = (starts_with s (c # cs) \<or> str_includes s cs)"

text \<open>\<^verbatim>\<open>s.indexOf(pat)\<close>: where \<open>pat\<close> first occurs, \<open>None\<close> for \<open>-1\<close>.\<close>

fun indexOf :: "string \<Rightarrow> string \<Rightarrow> nat option" where
  "indexOf pat [] = (if pat = [] then Some 0 else None)"
| "indexOf pat (c # cs) = (if starts_with pat (c # cs) then Some 0 else map_option Suc (indexOf pat cs))"

text \<open>
  \<^verbatim>\<open>s.split(sep)\<close> for a separator that is not empty: the pieces between the occurrences
  of \<open>sep\<close>, found from the left without overlap. \<open>acc\<close> is the current piece, reversed.
\<close>

fun split_from :: "string \<Rightarrow> string \<Rightarrow> string \<Rightarrow> string list" where
  "split_from sep acc [] = [rev acc]"
| "split_from sep acc (c # cs) =
     (if sep \<noteq> [] \<and> starts_with sep (c # cs)
      then rev acc # split_from sep [] (drop (length sep - 1) cs)
      else split_from sep (c # acc) cs)"

definition str_split :: "string \<Rightarrow> string \<Rightarrow> string list" where
  "str_split sep s = split_from sep [] s"

text \<open>
  \<^verbatim>\<open>s.lastIndexOf(c)\<close>: the last index of \<open>c\<close>, or \<open>-1\<close>. The characters after the
  last \<open>c\<close> are those the reversed string starts with.
\<close>

definition lastIndexOf :: "char \<Rightarrow> string \<Rightarrow> int" where
  "lastIndexOf c s =
     (if c \<in> set s
      then int (length s) - 1 - int (length (takeWhile (\<lambda>x. x \<noteq> c) (rev s)))
      else - 1)"

text \<open>\<^verbatim>\<open>(s.match(/c/g) || []).length\<close>: how often the character occurs.\<close>

definition occurrences :: "char \<Rightarrow> string \<Rightarrow> nat" where
  "occurrences c s = length (filter (\<lambda>x. x = c) s)"

section \<open>\<^verbatim>\<open>JSON.parse\<close>\<close>

text \<open>
  The built-in parser, as a tokenizer followed by a pushdown automaton, both running over
  their input once. \<open>None\<close> is the SyntaxError. An escape \<^verbatim>\<open>\uXXXX\<close> denotes a 16-bit
  code unit; the strings here have 8-bit units, and a unit beyond them is read as a unit of
  its kind among them (\<open>unit_char\<close>).
\<close>

datatype token =
    LBrace | RBrace | LBrack | RBrack | Comma | Colon
  | TStr string | TNum jsnum | TTrue | TFalse | TNull

text \<open>A JSON number: \<^verbatim>\<open>-? (0 | [1-9][0-9]*) (. [0-9]+)? ([eE] [+-]? [0-9]+)?\<close>\<close>

definition json_number :: "string \<Rightarrow> jsnum option" where
  "json_number w =
     (let neg = (w \<noteq> [] \<and> hd w = CHR ''-'');
          u = (if neg then tl w else w);
          ip = takeWhile is_digit u;
          r1 = dropWhile is_digit u;
          dot = (r1 \<noteq> [] \<and> hd r1 = CHR ''.'');
          fp = (if dot then takeWhile is_digit (tl r1) else [])
      in if ip = [] \<or> (hd ip = CHR ''0'' \<and> tl ip \<noteq> []) \<or> (dot \<and> fp = []) then None
         else case unsigned_decimal u of
                None \<Rightarrow> None
              | Some x \<Rightarrow> Some (if neg then js_neg (fl x) else fl x))"

definition word_token :: "string \<Rightarrow> token option" where
  "word_token w =
     (if w = ''true'' then Some TTrue
      else if w = ''false'' then Some TFalse
      else if w = ''null'' then Some TNull
      else map_option TNum (json_number w))"

definition is_word_char :: "char \<Rightarrow> bool" where
  "is_word_char c =
     (let n = code c
      in (48 \<le> n \<and> n \<le> 57) \<or> (97 \<le> n \<and> n \<le> 122) \<or> (65 \<le> n \<and> n \<le> 90)
         \<or> c = CHR ''+'' \<or> c = CHR ''-'' \<or> c = CHR ''.'')"

definition punctuation :: "char \<Rightarrow> token option" where
  "punctuation c =
     (if c = CHR ''{'' then Some LBrace else if c = CHR ''}'' then Some RBrace
      else if c = CHR ''['' then Some LBrack else if c = CHR '']'' then Some RBrack
      else if c = CHR '','' then Some Comma else if c = CHR '':'' then Some Colon
      else None)"

datatype lexmode =
    Between
  | InStr string
  | Escape string
  | Unicode string string
  | Word string

text \<open>
  The 8-bit unit that stands for a 16-bit code unit: the unit itself up to \<open>0xFF\<close>; beyond,
  the no-break space for the white space and the line terminators of the language, and
  \<open>0xFF\<close> for everything else. A unit beyond \<open>0xFF\<close> so stays white space or not, and stays
  different from every character of the names and numbers the handlers look for; two such
  units of one kind are no longer told apart.
\<close>

definition unit_char :: "int \<Rightarrow> char" where
  "unit_char n =
     (if n \<le> 255 then char_of n
      else if n \<in> {0x1680, 0x2028, 0x2029, 0x202F, 0x205F, 0x3000, 0xFEFF} \<or> (0x2000 \<le> n \<and> n \<le> 0x200A)
      then CHR 0xA0
      else CHR 0xFF)"

text \<open>The character after a backslash.\<close>

definition escaped :: "char \<Rightarrow> char option" where
  "escaped c =
     (if c = CHR 0x22 then Some (CHR 0x22)
      else if c = CHR 0x5C then Some (CHR 0x5C)
      else if c = CHR ''/'' then Some (CHR ''/'')
      else if c = CHR ''b'' then Some (CHR 0x08)
      else if c = CHR ''f'' then Some (CHR 0x0C)
      else if c = CHR ''n'' then Some (CHR 0x0A)
      else if c = CHR ''r'' then Some (CHR 0x0D)
      else if c = CHR ''t'' then Some (CHR 0x09)
      else None)"

text \<open>One character between tokens. The tokens are collected in reverse.\<close>

definition lex_between :: "token list \<Rightarrow> char \<Rightarrow> (lexmode \<times> token list) option" where
  "lex_between ts c =
     (if code c \<in> {9, 10, 13, 32} then Some (Between, ts)
      else if c = CHR 0x22 then Some (InStr [], ts)
      else case punctuation c of
             Some t \<Rightarrow> Some (Between, t # ts)
           | None \<Rightarrow> if is_word_char c then Some (Word [c], ts) else None)"

fun lex_step :: "lexmode \<times> token list \<Rightarrow> char \<Rightarrow> (lexmode \<times> token list) option" where
  "lex_step (Between, ts) c = lex_between ts c"
| "lex_step (InStr acc, ts) c =
     (if c = CHR 0x22 then Some (Between, TStr (rev acc) # ts)
      else if c = CHR 0x5C then Some (Escape acc, ts)
      else if code c < 32 then None
      else Some (InStr (c # acc), ts))"
| "lex_step (Escape acc, ts) c =
     (if c = CHR ''u'' then Some (Unicode acc [], ts)
      else case escaped c of Some e \<Rightarrow> Some (InStr (e # acc), ts) | None \<Rightarrow> None)"
| "lex_step (Unicode acc hs, ts) c =
     (case digit_in 16 c of
        None \<Rightarrow> None
      | Some v \<Rightarrow>
          if length hs = 3
          then Some (InStr (unit_char (digits_val 16 (hs @ [c])) # acc), ts)
          else Some (Unicode acc (hs @ [c]), ts))"
| "lex_step (Word w, ts) c =
     (if is_word_char c then Some (Word (c # w), ts)
      else case word_token (rev w) of
             None \<Rightarrow> None
           | Some t \<Rightarrow> lex_between (t # ts) c)"

fun lex_all :: "lexmode \<times> token list \<Rightarrow> string \<Rightarrow> (lexmode \<times> token list) option" where
  "lex_all st [] = Some st"
| "lex_all st (c # cs) = (case lex_step st c of None \<Rightarrow> None | Some st' \<Rightarrow> lex_all st' cs)"

definition tokenize :: "string \<Rightarrow> token list option" where
  "tokenize s =
     (case lex_all (Between, []) s of
        Some (Between, ts) \<Rightarrow> Some (rev ts)
      | Some (Word w, ts) \<Rightarrow> map_option (\<lambda>t. rev (t # ts)) (word_token (rev w))
      | _ \<Rightarrow> None)"

text \<open>
  The automaton. A frame is an open array with its elements so far (in reverse), or an open
  object with its members so far and the key that awaits its value.
\<close>

datatype frame = ArrF "jsval list" | ObjF "(string \<times> jsval) list" "string option"

datatype expect = AValue | AValueOrClose | AKeyOrClose | AKey | AColon | ACommaOrClose | Finished jsval

text \<open>
  A member defines an own property: a key seen before keeps its place and takes the new
  value.
\<close>

fun define_property :: "string \<Rightarrow> jsval \<Rightarrow> (string \<times> jsval) list \<Rightarrow> (string \<times> jsval) list" where
  "define_property k v [] = [(k, v)]"
| "define_property k v (p # ps) = (if fst p = k then (k, v) # ps else p # define_property k v ps)"

fun deliver :: "jsval \<Rightarrow> frame list \<Rightarrow> (expect \<times> frame list) option" where
  "deliver v [] = Some (Finished v, [])"
| "deliver v (ArrF es # st) = Some (ACommaOrClose, ArrF (v # es) # st)"
| "deliver v (ObjF ms (Some k) # st) = Some (ACommaOrClose, ObjF (define_property k v ms) None # st)"
| "deliver v (ObjF ms None # st) = None"

definition begin_value :: "token \<Rightarrow> frame list \<Rightarrow> (expect \<times> frame list) option" where
  "begin_value t st =
     (case t of
        TStr s \<Rightarrow> deliver (JStr s) st
      | TNum n \<Rightarrow> deliver (JNum n) st
      | TTrue \<Rightarrow> deliver (JBool True) st
      | TFalse \<Rightarrow> deliver (JBool False) st
      | TNull \<Rightarrow> deliver JNull st
      | LBrack \<Rightarrow> Some (AValueOrClose, ArrF [] # st)
      | LBrace \<Rightarrow> Some (AKeyOrClose, ObjF [] None # st)
      | _ \<Rightarrow> None)"

definition close_frame :: "token \<Rightarrow> frame list \<Rightarrow> (expect \<times> frame list) option" where
  "close_frame t st =
     (case (t, st) of
        (RBrack, ArrF es # st') \<Rightarrow> deliver (JArr (rev es) []) st'
      | (RBrace, ObjF ms None # st') \<Rightarrow> deliver (JObj ms) st'
      | _ \<Rightarrow> None)"

definition begin_key :: "token \<Rightarrow> frame list \<Rightarrow> (expect \<times> frame list) option" where
  "begin_key t st =
     (case (t, st) of
        (TStr k, ObjF ms None # st') \<Rightarrow> Some (AColon, ObjF ms (Some k) # st')
      | _ \<Rightarrow> None)"

fun parse_step :: "expect \<times> frame list \<Rightarrow> token \<Rightarrow> (expect \<times> frame list) option" where
  "parse_step (AValue, st) t = begin_value t st"
| "parse_step (AValueOrClose, st) t = (if t = RBrack then close_frame t st else begin_value t st)"
| "parse_step (AKeyOrClose, st) t = (if t = RBrace then close_frame t st else begin_key t st)"
| "parse_step (AKey, st) t = begin_key t st"
| "parse_step (AColon, st) t = (if t = Colon then Some (AValue, st) else None)"
| "parse_step (ACommaOrClose, st) t =
     (if t = Comma
      then (case st of
              ArrF es # st' \<Rightarrow> Some (AValue, st)
            | ObjF ms k # st' \<Rightarrow> Some (AKey, st)
            | [] \<Rightarrow> None)
      else close_frame t st)"
| "parse_step (Finished v, st) t = None"

fun parse_all :: "expect \<times> frame list \<Rightarrow> token list \<Rightarrow> (expect \<times> frame list) option" where
  "parse_all st [] = Some st"
| "parse_all st (t # ts) = (case parse_step st t of None \<Rightarrow> None | Some st' \<Rightarrow> parse_all st' ts)"

definition JSON_parse :: "string \<Rightarrow> jsval option" where
  "JSON_parse s =
     (case tokenize s of
        None \<Rightarrow> None
      | Some ts \<Rightarrow>
          (case parse_all (AValue, []) ts of
             Some (Finished v, st) \<Rightarrow> Some v
           | _ \<Rightarrow> None))"

section \<open>The response parser (\<^verbatim>\<open>parseAIResponse\<close>)\<close>

text \<open>
  \<^verbatim>\<open>try { ... } catch (error) { ... }\<close>: the handler runs when the body throws.
\<close>

definition try_catch :: "error + 'a \<Rightarrow> (error \<Rightarrow> error + 'a) \<Rightarrow> error + 'a" where
  "try_catch body handler = (case body of Inl e \<Rightarrow> handler e | Inr x \<Rightarrow> Inr x)"

text \<open>
  \<^verbatim>\<open>v.k = x\<close> in module code, which is strict: the property is replaced or added on an
  object or an array, and the assignment throws a TypeError on a primitive value.
\<close>

fun Put :: "jsval \<Rightarrow> string \<Rightarrow> jsval \<Rightarrow> error + jsval" where
  "Put (JObj ps) k x = Inr (JObj (define_property k x ps))"
| "Put (JArr xs ps) k x = Inr (JArr xs (define_property k x ps))"
| "Put v k x = Inl TypeError"

text \<open>
  \<^verbatim>\<open>text.split(fence)[1].split('```')[0]\<close>. Indexing past the pieces gives
  \<^verbatim>\<open>undefined\<close>, on which \<^verbatim>\<open>split\<close> throws.
\<close>

definition fenced_body :: "string \<Rightarrow> string \<Rightarrow> error + string" where
  "fenced_body fence text =
     (case str_split fence text of
        a # b # rest \<Rightarrow> (case str_split ''```'' b of c # more \<Rightarrow> Inr c | [] \<Rightarrow> Inl TypeError)
      | _ \<Rightarrow> Inl TypeError)"

definition extract_json :: "string \<Rightarrow> error + string" where
  "extract_json text =
     (if str_includes ''```json'' text then fenced_body ''```json'' text
      else if str_includes ''```'' text then fenced_body ''```'' text
      else Inr text)"

text \<open>
  The loop that walks back from the last closing brace, here over the characters before
  it, nearest first: \<^verbatim>\<open>braceCount\<close> goes up at a closing brace and down at an opening
  one, and the walk succeeds when it reaches 0.
\<close>

fun find_matching :: "string \<Rightarrow> int \<Rightarrow> bool" where
  "find_matching [] braceCount = False"
| "find_matching (c # before) braceCount =
     (let b1 = (if c = CHR ''}'' then braceCount + 1 else braceCount);
          b2 = (if c = CHR ''{'' then b1 - 1 else b1)
      in if b2 = 0 then True else find_matching before b2)"

text \<open>The block "Check if JSON is complete", present in the full handler only.\<close>

definition repair_braces :: "string \<Rightarrow> string" where
  "repair_braces jsonStr =
     (let openBraces = occurrences CHR ''{'' jsonStr;
          closeBraces = occurrences CHR ''}'' jsonStr
      in if openBraces > closeBraces
         then (let lastCompleteIndex = lastIndexOf CHR ''}'' jsonStr
               in if lastCompleteIndex > 0
                     \<and> find_matching (rev (take (nat lastCompleteIndex) jsonStr)) 1
                  then take (nat (lastCompleteIndex + 1)) jsonStr
                  else jsonStr)
         else jsonStr)"

text \<open>
  From "Validate required fields" to the \<^verbatim>\<open>return parsed\<close>. The value \<^verbatim>\<open>null\<close> is
  \<open>JNull\<close>.
\<close>

definition validate_and_fill :: "jsval \<Rightarrow> error + jsval" where
  "validate_and_fill parsed =
     bnd (Get parsed ''scores'') (\<lambda>scores.
       case scores of
         None \<Rightarrow> Inr JNull
       | Some sc \<Rightarrow>
           if \<not> truthy sc then Inr JNull
           else bnd (Get parsed ''priority_recommendation'') (\<lambda>recommendation.
             if \<not> truthy_opt recommendation then Inr JNull
             else bnd (Get sc ''overall_priority'') (\<lambda>overall.
               if \<not> truthy_opt overall
               then bnd (calculateOverallPriority sc) (\<lambda>n.
                    bnd (Put sc ''overall_priority'' (JNum n)) (\<lambda>sc'.
                      Put parsed ''scores'' sc'))
               else Inr parsed)))"

text \<open>
  The body of the \<^verbatim>\<open>try\<close>, with the repair step of the variant as a parameter, and the
  function with its \<^verbatim>\<open>catch\<close>, which logs and returns \<^verbatim>\<open>null\<close>.
\<close>

definition parse_body :: "(string \<Rightarrow> string) \<Rightarrow> string \<Rightarrow> error + jsval" where
  "parse_body repair text =
     bnd (extract_json text) (\<lambda>extracted.
       let jsonStr = repair (trim extracted)
       in case JSON_parse jsonStr of
            None \<Rightarrow> Inl SyntaxError
          | Some parsed \<Rightarrow> validate_and_fill parsed)"

definition parse_with :: "(string \<Rightarrow> string) \<Rightarrow> string \<Rightarrow> error + jsval" where
  "parse_with repair text = try_catch (parse_body repair text) (\<lambda>error. Inr JNull)"

text \<open>\<^verbatim>\<open>parseAIResponse\<close> of \<^verbatim>\<open>api/triage.js\<close>, which parses the extracted text as it is.\<close>

definition parseAIResponse :: "string \<Rightarrow> error + jsval" where
  "parseAIResponse text = parse_with (\<lambda>jsonStr. jsonStr) text"

text \<open>\<^verbatim>\<open>parseAIResponse\<close> of the full handler, which repairs the braces first.\<close>

definition parseAIResponse_repairing :: "string \<Rightarrow> error + jsval" where
  "parseAIResponse_repairing text = parse_with repair_braces text"

section \<open>Notions the claims about the parser use\<close>

text \<open>
  The JSON value a response text is parsed to, after the extraction, the \<^verbatim>\<open>trim\<close> and the
  repair step of the variant; \<open>None\<close> when \<^verbatim>\<open>JSON.parse\<close> throws.
\<close>

definition extracted_json :: "(string \<Rightarrow> string) \<Rightarrow> string \<Rightarrow> jsval option" where
  "extracted_json repair text =
     (case extract_json text of Inl e \<Rightarrow> None | Inr extracted \<Rightarrow> JSON_parse (repair (trim extracted)))"


text \<open>An own property of an object or array, \<open>None\<close> when there is none.\<close>

definition field :: "jsval \<Rightarrow> string \<Rightarrow> jsval option" where
  "field v k = (case v of JObj ps \<Rightarrow> map_of ps k | JArr xs ps \<Rightarrow> map_of ps k | _ \<Rightarrow> None)"

text \<open>\<^verbatim>\<open>v.scores.overall_priority\<close> of a result.\<close>

definition overall_priority_of :: "jsval \<Rightarrow> jsval option" where
  "overall_priority_of v = (case field v ''scores'' of None \<Rightarrow> None | Some sc \<Rightarrow> field sc ''overall_priority'')"

section \<open>Tickets\<close>

text \<open>
  The issue of the webhook body, with the fields the handlers read, typed as the tracker
  sends them: the key, the summary and the description are texts, the components are
  objects with a text as name (here the list of these names), the labels are texts.
  \<open>None\<close> is a field that is missing. The reporter, the date and the priority of a ticket
  are read by the prompts only; they are texts too, and have no part here. A ticket of
  another shape (a description that is an object, a component without a name) is outside
  this model: on it the source throws a TypeError where it calls \<^verbatim>\<open>toLowerCase\<close>.
\<close>

record issue_fields =
  summary :: "string option"
  description :: "string option"
  components :: "string list option"
  labels :: "string list option"

record issue =
  key :: "string option"
  fields' :: "issue_fields option"

text \<open>\<^verbatim>\<open>(issue.fields?.summary || '').toLowerCase()\<close> and its like.\<close>

definition lower_char :: "char \<Rightarrow> char" where
  "lower_char c =
     (let n = code c
      in if (65 \<le> n \<and> n \<le> 90) \<or> (192 \<le> n \<and> n \<le> 222 \<and> n \<noteq> 215) then char_of (n + 32) else c)"

definition toLowerCase :: "string \<Rightarrow> string" where
  "toLowerCase s = map lower_char s"

definition text_field :: "issue \<Rightarrow> (issue_fields \<Rightarrow> string option) \<Rightarrow> string" where
  "text_field issue f =
     (case fields' issue of None \<Rightarrow> [] | Some fs \<Rightarrow> (case f fs of None \<Rightarrow> [] | Some s \<Rightarrow> s))"

definition list_field :: "issue \<Rightarrow> (issue_fields \<Rightarrow> string list option) \<Rightarrow> string list" where
  "list_field issue f =
     (case fields' issue of None \<Rightarrow> [] | Some fs \<Rightarrow> (case f fs of None \<Rightarrow> [] | Some xs \<Rightarrow> xs))"

text \<open>
  \<^verbatim>\<open>new RegExp(pattern, 'i').test(s)\<close> for the patterns of the handlers, which all read
  \<^verbatim>\<open>a.*b\<close> with two literal texts (\<open>b\<close> may be empty): \<open>a\<close> occurs and \<open>b\<close> occurs after
  it with no line terminator in between, which the dot does not match. The texts tested
  are in lower case already, as are the patterns.
\<close>

definition is_line_terminator :: "char \<Rightarrow> bool" where
  "is_line_terminator c = (code c = 10 \<or> code c = 13)"

fun found_on_line :: "string \<Rightarrow> string \<Rightarrow> bool" where
  "found_on_line b [] = (b = [])"
| "found_on_line b (c # cs) =
     (starts_with b (c # cs) \<or> (\<not> is_line_terminator c \<and> found_on_line b cs))"

fun regex_test :: "string \<times> string \<Rightarrow> string \<Rightarrow> bool" where
  "regex_test (a, b) [] = (a = [] \<and> b = [])"
| "regex_test (a, b) (c # cs) =
     ((starts_with a (c # cs) \<and> found_on_line b (drop (length a) (c # cs)))
      \<or> regex_test (a, b) cs)"

text \<open>\<^verbatim>\<open>xs.join(sep)\<close>\<close>

fun join :: "string \<Rightarrow> string list \<Rightarrow> string" where
  "join sep [] = []"
| "join sep [x] = x"
| "join sep (x # y # ys) = x @ sep @ join sep (y # ys)"

section \<open>The logger\<close>

text \<open>
  \<^verbatim>\<open>logger.logAction(action, details)\<close> appends an entry; the log is kept as the list of
  the actions, oldest first.
\<close>

type_synonym log = "string list"

definition logAction :: "string \<Rightarrow> log \<Rightarrow> log" where
  "logAction action lg = lg @ [action]"

section \<open>Effort estimation (\<^verbatim>\<open>estimateEffort\<close>)\<close>

record indicators =
  keywords' :: "string list"
  patterns :: "(string \<times> string) list"
  score :: int
  size_description :: string

definition effortIndicators :: "(string \<times> indicators) list" where
  "effortIndicators =
     [(''XS'', \<lparr>keywords' = [''config'', ''setting'', ''toggle'', ''button'', ''styling'', ''color'',
                             ''text'', ''minor'', ''small'', ''simple''],
                 patterns = [(''fix'', ''button''), (''change'', ''color''), (''update'', ''text''),
                             (''add'', ''toggle'')],
                 score = 100,
                 size_description = ''1-2 weeks: Simple config/UI changes, minor bug fixes''\<rparr>),
      (''S'', \<lparr>keywords' = [''widget'', ''component'', ''api'', ''endpoint'', ''integration'',
                            ''moderate'', ''medium''],
                patterns = [(''add'', ''widget''), (''new'', ''api''), (''create'', ''component''),
                            (''integrate'', ''service'')],
                score = 80,
                size_description = ''2-4 weeks: Single service changes, new components, moderate features''\<rparr>),
      (''M'', \<lparr>keywords' = [''dashboard'', ''report'', ''workflow'', ''complex'', ''multiple'', ''major''],
                patterns = [(''new'', ''dashboard''), (''create'', ''workflow''), (''build'', ''report''),
                            (''multiple'', ''services'')],
                score = 60,
                size_description = ''1-2 months: Multiple service integration, complex features, major UI changes''\<rparr>),
      (''L'', \<lparr>keywords' = [''architecture'', ''migration'', ''platform'', ''infrastructure'', ''large''],
                patterns = [(''architectural'', ''change''), (''platform'', ''migration''),
                            (''infrastructure'', ''update'')],
                score = 40,
                size_description = ''2-4 months: Architectural changes, platform migrations, complex integrations''\<rparr>),
      (''XL'', \<lparr>keywords' = [''rewrite'', ''overhaul'', ''new product'', ''major platform'', ''enterprise''],
                 patterns = [(''rewrite'', ''system''), (''new'', ''product''), (''major'', ''overhaul''),
                             (''enterprise'', ''feature'')],
                 score = 20,
                 size_description = ''4+ months: Platform rewrites, major infrastructure, new product lines''\<rparr>)]"

definition keywordMatches :: "indicators \<Rightarrow> string \<Rightarrow> string \<Rightarrow> string list" where
  "keywordMatches ind summ desc =
     filter (\<lambda>keyword. str_includes keyword summ \<or> str_includes keyword desc) (keywords' ind)"

definition patternMatches :: "indicators \<Rightarrow> string \<Rightarrow> string \<Rightarrow> (string \<times> string) list" where
  "patternMatches ind summ desc =
     filter (\<lambda>pattern. regex_test pattern summ \<or> regex_test pattern desc) (patterns ind)"

definition componentMatches :: "indicators \<Rightarrow> string list \<Rightarrow> string list" where
  "componentMatches ind comps =
     filter (\<lambda>comp. \<exists>keyword \<in> set (keywords' ind). str_includes keyword comp) comps"

text \<open>The score one pass of the loop gives its bucket.\<close>

definition bucket_score :: "indicators \<Rightarrow> string \<Rightarrow> string \<Rightarrow> string list \<Rightarrow> int" where
  "bucket_score ind summ desc comps =
     int (length (keywordMatches ind summ desc)) * 10
     + int (length (patternMatches ind summ desc)) * 15
     + int (length (componentMatches ind comps)) * 5"

text \<open>
  The reasoning lines of a bucket, after the filter that drops a line with
  \<^verbatim>\<open>undefined\<close> or \<^verbatim>\<open>matched: \<close> in it.
\<close>

definition reasoning_lines :: "indicators \<Rightarrow> string \<Rightarrow> string \<Rightarrow> string list \<Rightarrow> string list" where
  "reasoning_lines ind summ desc comps =
     filter (\<lambda>r. \<not> str_includes ''undefined'' r \<and> \<not> str_includes ''matched: '' r)
       [''Keywords matched: '' @ join '', '' (keywordMatches ind summ desc),
        ''Patterns matched: '' @ join '', '' (map (\<lambda>(a, b). a @ ''.*'' @ b) (patternMatches ind summ desc)),
        ''Components: '' @ join '', '' (componentMatches ind comps)]"

text \<open>
  The loop over the buckets, with \<^verbatim>\<open>maxScore\<close>, \<^verbatim>\<open>estimatedEffort\<close> and
  \<^verbatim>\<open>reasoning\<close> as its state.
\<close>

fun score_buckets ::
  "(string \<times> indicators) list \<Rightarrow> string \<Rightarrow> string \<Rightarrow> string list
     \<Rightarrow> int \<times> string \<times> string list \<Rightarrow> int \<times> string \<times> string list" where
  "score_buckets [] summ desc comps st = st"
| "score_buckets ((effort, ind) # rest) summ desc comps (maxScore, estimatedEffort, reasoning) =
     (let sc = bucket_score ind summ desc comps
      in score_buckets rest summ desc comps
           (if sc > maxScore then (sc, effort, reasoning_lines ind summ desc comps)
            else (maxScore, estimatedEffort, reasoning)))"

text \<open>"Override based on explicit indicators".\<close>

definition apply_overrides :: "string \<Rightarrow> string \<times> string list \<Rightarrow> string \<times> string list" where
  "apply_overrides summ st =
     (let (e1, r1) =
            (if str_includes ''bug'' summ \<or> str_includes ''fix'' summ
             then (if str_includes ''minor'' summ \<or> str_includes ''small'' summ
                   then (''XS'', snd st @ [''Minor bug fix identified''])
                   else if str_includes ''critical'' summ \<or> str_includes ''major'' summ
                   then (''M'', snd st @ [''Critical bug fix - moderate effort''])
                   else st)
             else st)
      in if str_includes ''security'' summ \<or> str_includes ''compliance'' summ
         then (''S'', r1 @ [''Security/compliance items typically S effort''])
         else (e1, r1))"

record effort_estimate =
  effort_size :: string
  effort_score :: int
  reasoning :: string
  effort_description :: string

text \<open>
  \<^verbatim>\<open>effortIndicators[estimatedEffort]\<close>: one of the five buckets; reading a member of a
  bucket that does not exist would throw.
\<close>

definition estimateEffort :: "issue \<Rightarrow> log \<Rightarrow> error + effort_estimate \<times> log" where
  "estimateEffort issue lg =
     (let summ = toLowerCase (text_field issue summary);
          desc = toLowerCase (text_field issue description);
          comps = map toLowerCase (list_field issue components);
          (maxScore, inferred, reasoning0) = score_buckets effortIndicators summ desc comps (0, ''M'', []);
          (estimatedEffort, reasoning1) = apply_overrides summ (inferred, reasoning0)
      in case map_of effortIndicators estimatedEffort of
           None \<Rightarrow> Inl TypeError
         | Some ind \<Rightarrow>
             Inr (\<lparr>effort_size = estimatedEffort, effort_score = score ind,
                   reasoning = join ''; '' reasoning1, effort_description = size_description ind\<rparr>,
                  logAction ''EFFORT_ESTIMATION'' lg))"

section \<open>Effort estimation, as the specification words it\<close>

text \<open>
  The highest-scoring bucket of a list of scored buckets: \<^verbatim>\<open>M\<close> when none scores above
  zero, otherwise the first of those with the largest score.
\<close>

primrec largest :: "int list \<Rightarrow> int" where
  "largest [] = 0"
| "largest (x # xs) = max x (largest xs)"

definition highest_bucket :: "(string \<times> int) list \<Rightarrow> string" where
  "highest_bucket scored =
     (let m = largest (map snd scored)
      in if m \<le> 0 then ''M'' else fst (hd (filter (\<lambda>p. snd p = m) scored)))"

text \<open>The override rules on the lower-case title, the last rule of the source first.\<close>

definition overridden :: "string \<Rightarrow> string \<Rightarrow> string" where
  "overridden summ inferred =
     (if str_includes ''security'' summ \<or> str_includes ''compliance'' summ then ''S''
      else if (str_includes ''bug'' summ \<or> str_includes ''fix'' summ)
              \<and> (str_includes ''minor'' summ \<or> str_includes ''small'' summ) then ''XS''
      else if (str_includes ''bug'' summ \<or> str_includes ''fix'' summ)
              \<and> (str_includes ''critical'' summ \<or> str_includes ''major'' summ) then ''M''
      else inferred)"

definition scored_buckets :: "string \<Rightarrow> string \<Rightarrow> string list \<Rightarrow> (string \<times> int) list" where
  "scored_buckets summ desc comps =
     map (\<lambda>(effort, ind). (effort, bucket_score ind summ desc comps)) effortIndicators"

section \<open>Product context (\<^verbatim>\<open>getProductContext\<close>)\<close>

text \<open>
  The static knowledge block of a product line, which \<^verbatim>\<open>getProductDetails\<close> selects by
  name and which the prompts quote. Its texts play no part in what follows; the block is
  kept by the name of its \<^verbatim>\<open>switch\<close> case.
\<close>

datatype product_details = Details string

definition getProductDetails :: "string \<Rightarrow> product_details" where
  "getProductDetails productName =
     (if productName = ''Khoros Aurora Community'' then Details ''Khoros Aurora Community''
      else if productName = ''Khoros Care'' then Details ''Khoros Care''
      else if productName = ''Khoros Social Media & Marketing'' then Details ''Khoros Social Media & Marketing''
      else Details ''default'')"

record product_context =
  product :: string
  confidence :: string
  context' :: "product_details option"

text \<open>The word occurs in the title, the description, a component or a label.\<close>

definition mentions :: "issue \<Rightarrow> string \<Rightarrow> bool" where
  "mentions issue w =
     (str_includes w (toLowerCase (text_field issue summary))
      \<or> str_includes w (toLowerCase (text_field issue description))
      \<or> (\<exists>c \<in> set (map toLowerCase (list_field issue components)). str_includes w c)
      \<or> (\<exists>l \<in> set (map toLowerCase (list_field issue labels)). str_includes w l))"

definition getProductContext :: "issue \<Rightarrow> product_context" where
  "getProductContext issue =
     (let (detectedProduct, conf) =
            (if mentions issue ''community''
             then (if mentions issue ''aurora'' then (''Khoros Aurora Community'', ''High'')
                   else if mentions issue ''classic'' then (''Khoros Classic Community'', ''High'')
                   else (''Khoros Community Platform'', ''Medium''))
             else if mentions issue ''care'' then (''Khoros Care'', ''High'')
             else if mentions issue ''social'' \<or> mentions issue ''marketing''
             then (''Khoros Social Media & Marketing'', ''High'')
             else (''Unknown'', ''Low''))
      in \<lparr>product = detectedProduct, confidence = conf,
          context' = Some (getProductDetails detectedProduct)\<rparr>)"

section \<open>The two backends\<close>

text \<open>
  The two clients exist when their API keys were set. What a backend answers is not the
  program's to decide: for each of the four calls a request can make, the environment
  holds the outcome of the call, the response text or the exception thrown on the way to
  it. It also holds the readings of the clock and the request identifier.
\<close>

datatype provider = Gemini | Claude

record backends =
  genAI :: bool
  anthropic :: bool
  theme_gemini :: "error + string"
  theme_claude :: "error + string"
  priority_gemini :: "error + string"
  priority_claude :: "error + string"
  themeTime :: int
  priorityTime :: int
  processingTime :: int
  requestId :: string

text \<open>The log of the request and the calls made to the backends, oldest first.\<close>

record trace =
  logged :: log
  calls :: "provider list"

definition log_to :: "string \<Rightarrow> trace \<Rightarrow> trace" where
  "log_to action tr = tr\<lparr>logged := logAction action (logged tr)\<rparr>"

definition call :: "provider \<Rightarrow> trace \<Rightarrow> trace" where
  "call p tr = tr\<lparr>calls := calls tr @ [p]\<rparr>"

section \<open>Theme classification (\<^verbatim>\<open>classifyTheme\<close>)\<close>

record theme_result =
  theme :: string
  theme_modelUsed :: string

text \<open>
  The product context and the prompt are built first; with a ticket typed as above
  nothing in them throws. Each backend is called inside a \<^verbatim>\<open>try\<close> of its own.
\<close>

definition classifyTheme :: "backends \<Rightarrow> issue \<Rightarrow> trace \<Rightarrow> theme_result \<times> trace" where
  "classifyTheme env issue tr0 =
     (let productContext = getProductContext issue;
          claude_or_fail = (\<lambda>tr.
            let both_failed = (\<lambda>tr'.
                  (\<lparr>theme = ''THEME NOT IDENTIFIED'', theme_modelUsed = ''None - Both models failed''\<rparr>,
                   log_to ''THEME_CLASSIFICATION_BOTH_FAILED'' tr'))
            in if anthropic env
               then (case theme_claude env of
                       Inr text \<Rightarrow>
                         (\<lparr>theme = trim text, theme_modelUsed = ''Claude Sonnet 3.5''\<rparr>,
                          log_to ''THEME_CLASSIFICATION_SUCCESS'' (call Claude tr))
                     | Inl e \<Rightarrow> both_failed (log_to ''THEME_CLAUDE_FAILED'' (call Claude tr)))
               else both_failed tr)
      in if genAI env
         then (case theme_gemini env of
                 Inr text \<Rightarrow>
                   (\<lparr>theme = trim text, theme_modelUsed = ''Gemini Flash 2.0''\<rparr>,
                    log_to ''THEME_CLASSIFICATION_SUCCESS'' (call Gemini tr0))
               | Inl e \<Rightarrow> claude_or_fail (log_to ''THEME_GEMINI_FAILED'' (call Gemini tr0)))
         else claude_or_fail tr0)"

section \<open>Priority analysis (\<^verbatim>\<open>analyzePriority\<close>)\<close>

record analysis_result =
  analysis :: jsval
  modelUsed :: string

text \<open>\<^verbatim>\<open>parsed && parsed.scores\<close>\<close>

definition has_scores :: "jsval \<Rightarrow> bool" where
  "has_scores parsed = (truthy parsed \<and> truthy_opt (field parsed ''scores''))"

definition analyzePriority :: "backends \<Rightarrow> issue \<Rightarrow> trace \<Rightarrow> analysis_result \<times> trace" where
  "analyzePriority env issue tr0 =
     (case estimateEffort issue (logged tr0) of
        Inl e \<Rightarrow>
          (\<lparr>analysis = JNull, modelUsed = ''Error occurred''\<rparr>, log_to ''PRIORITY_ANALYSIS_ERROR'' tr0)
      | Inr (effortEstimation, lg) \<Rightarrow>
          (let tr1 = tr0\<lparr>logged := lg\<rparr>;
               productContext = getProductContext issue
           in if context' productContext = None
              then (\<lparr>analysis = JNull, modelUsed = ''Error - Product context missing''\<rparr>,
                    log_to ''PRODUCT_CONTEXT_ERROR'' tr1)
              else
                (let tr2 = log_to ''PRIORITY_PROMPT_BUILT'' tr1;
                     both_failed = (\<lambda>tr.
                       (\<lparr>analysis = JNull, modelUsed = ''None - Both models failed''\<rparr>,
                        log_to ''PRIORITY_ANALYSIS_BOTH_FAILED'' tr));
                     claude_or_fail = (\<lambda>tr.
                       if anthropic env
                       then (let tr3 = call Claude (log_to ''PRIORITY_CLAUDE_ATTEMPT'' tr)
                             in case priority_claude env of
                                  Inl e \<Rightarrow> both_failed (log_to ''PRIORITY_CLAUDE_FAILED'' tr3)
                                | Inr text \<Rightarrow>
                                    (let tr4 = log_to ''PRIORITY_CLAUDE_RESPONSE'' tr3
                                     in case parseAIResponse_repairing text of
                                          Inl e \<Rightarrow> both_failed (log_to ''PRIORITY_CLAUDE_FAILED'' tr4)
                                        | Inr parsed \<Rightarrow>
                                            (let tr5 = log_to ''PRIORITY_CLAUDE_PARSE_RESULT'' tr4
                                             in if has_scores parsed
                                                then (\<lparr>analysis = parsed, modelUsed = ''Claude Sonnet 3.5''\<rparr>,
                                                      log_to ''PRIORITY_ANALYSIS_SUCCESS'' tr5)
                                                else both_failed (log_to ''PRIORITY_CLAUDE_PARSE_FAILED'' tr5))))
                       else both_failed tr)
                 in if genAI env
                    then (let tr3 = call Gemini tr2
                          in case priority_gemini env of
                               Inl e \<Rightarrow> claude_or_fail (log_to ''PRIORITY_GEMINI_FAILED'' tr3)
                             | Inr text \<Rightarrow>
                                 (case parseAIResponse_repairing text of
                                    Inl e \<Rightarrow> claude_or_fail (log_to ''PRIORITY_GEMINI_FAILED'' tr3)
                                  | Inr parsed \<Rightarrow>
                                      if has_scores parsed
                                      then (\<lparr>analysis = parsed, modelUsed = ''Gemini Flash 2.0''\<rparr>,
                                            log_to ''PRIORITY_ANALYSIS_SUCCESS'' tr3)
                                      else claude_or_fail tr3))
                    else claude_or_fail tr2)))"

section \<open>The orchestrator (\<^verbatim>\<open>processTicketWithFullTriage\<close>)\<close>

text \<open>The decimal text of a Number that is a non-negative integer.\<close>

function decimal :: "int \<Rightarrow> string" where
  "decimal n = (if n < 10 then [char_of (48 + max n 0)] else decimal (n div 10) @ [char_of (48 + n mod 10)])"
  by pat_completeness auto
termination
  by (relation "measure (\<lambda>n. nat n)") auto

declare decimal.simps [simp del]

record triage_result =
  res_modelUsed :: "string option"
  responseTime :: int
  res_analysis :: jsval
  res_theme :: "string option"
  themeModel :: "string option"
  priorityModel :: "string option"
  actions :: "string list"

text \<open>
  \<^verbatim>\<open>issueData || { key: issueKey, fields: { summary: "Test ticket", ... } }\<close>, then the
  two dispatches in turn. With a ticket typed as above nothing between the \<^verbatim>\<open>try\<close> and
  its \<^verbatim>\<open>catch\<close> throws.
\<close>

definition processTicketWithFullTriage ::
  "backends \<Rightarrow> string \<Rightarrow> issue option \<Rightarrow> trace \<Rightarrow> triage_result \<times> trace" where
  "processTicketWithFullTriage env issueKey issueData tr0 =
     (let tr1 = log_to ''ISSUE_DATA_READY'' (log_to ''USING_PROVIDED_DATA'' (log_to ''PROCESSING_START'' tr0));
          issue = (case issueData of
                     Some i \<Rightarrow> i
                   | None \<Rightarrow> \<lparr>key = Some issueKey,
                               fields' = Some \<lparr>summary = Some ''Test ticket'',
                                               description = Some ''Test description'',
                                               components = None, labels = None\<rparr>\<rparr>);
          (themeResult, tr2) = classifyTheme env issue (log_to ''THEME_CLASSIFICATION_START'' tr1);
          tr3 = log_to ''THEME_CLASSIFICATION_COMPLETE'' tr2;
          acts1 = [''Started processing'',
                   ''Theme classified: '' @ theme themeResult @ '' ('' @ decimal (themeTime env) @ ''ms)''];
          (analysisResult, tr4) = analyzePriority env issue (log_to ''PRIORITY_ANALYSIS_START'' tr3)
      in if has_scores (analysis analysisResult)
         then (\<lparr>res_modelUsed = Some (theme_modelUsed themeResult),
                responseTime = themeTime env + priorityTime env,
                res_analysis = analysis analysisResult,
                res_theme = Some (theme themeResult),
                themeModel = Some (theme_modelUsed themeResult),
                priorityModel = Some (modelUsed analysisResult),
                actions = acts1 @ [''Priority analysis completed ('' @ decimal (priorityTime env) @ ''ms)'']\<rparr>,
               log_to ''PRIORITY_ANALYSIS_SUCCESS'' tr4)
         else (\<lparr>res_modelUsed = Some (theme_modelUsed themeResult),
                responseTime = themeTime env + priorityTime env,
                res_analysis = JNull,
                res_theme = Some (theme themeResult),
                themeModel = Some (theme_modelUsed themeResult),
                priorityModel = Some ''Failed'',
                actions = acts1 @ [''Priority analysis failed - manual review needed'']\<rparr>,
               log_to ''PRIORITY_ANALYSIS_FAILED'' tr4))"

section \<open>The request handler\<close>

text \<open>\<^verbatim>\<open>classifyBugOrFeature\<close>: keyword hits count 2, pattern hits 1, a label 3.\<close>

definition bugKeywords :: "string list" where
  "bugKeywords = [''bug'', ''fix'', ''error'', ''broken'', ''issue'', ''problem'', ''crash'', ''fail'',
                  ''not working'', ''broken'']"

definition bugPatterns :: "(string \<times> string) list" where
  "bugPatterns = [(''fix'', ''''), (''broken'', ''''), (''not'', ''working''), (''error'', ''''), (''bug'', '''')]"

definition featureKeywords :: "string list" where
  "featureKeywords = [''add'', ''new'', ''implement'', ''create'', ''build'', ''enhance'', ''improve'',
                      ''upgrade'', ''feature'']"

definition featurePatterns :: "(string \<times> string) list" where
  "featurePatterns = [(''add'', ''''), (''new'', ''''), (''implement'', ''''), (''create'', ''''), (''build'', '''')]"

definition classifyBugOrFeature :: "issue option \<Rightarrow> string" where
  "classifyBugOrFeature issueData =
     (let issue = (case issueData of Some i \<Rightarrow> i | None \<Rightarrow> \<lparr>key = None, fields' = None\<rparr>);
          summ = toLowerCase (text_field issue summary);
          desc = toLowerCase (text_field issue description);
          lbls = map toLowerCase (list_field issue labels);
          hits = (\<lambda>ws. int (length (filter (\<lambda>w. str_includes w summ \<or> str_includes w desc) ws)));
          matches = (\<lambda>ps. int (length (filter (\<lambda>p. regex_test p summ \<or> regex_test p desc) ps)));
          bugScore = 2 * hits bugKeywords + matches bugPatterns
                     + (if ''bug'' \<in> set lbls \<or> ''defect'' \<in> set lbls then 3 else 0);
          featureScore = 2 * hits featureKeywords + matches featurePatterns
                     + (if ''enhancement'' \<in> set lbls \<or> ''feature'' \<in> set lbls then 3 else 0)
      in if bugScore > featureScore then ''Bug'' else ''Feature'')"

text \<open>
  \<^verbatim>\<open>generateSimilarityGroup\<close>. The hash runs in 32-bit integers: the shift and the
  mask wrap their operand. \<^verbatim>\<open>substring\<close> exists on strings only, so a truthy
  \<^verbatim>\<open>similar_features\<close> of another type is a TypeError.
\<close>

definition to_int32 :: "int \<Rightarrow> int" where
  "to_int32 x = (x + 2147483648) mod 4294967296 - 2147483648"

definition hash_step :: "int \<Rightarrow> char \<Rightarrow> int" where
  "hash_step a b = to_int32 (to_int32 (a * 32) - a + code b)"

definition padStart3 :: "string \<Rightarrow> string" where
  "padStart3 s = replicate (3 - length s) (CHR ''0'') @ s"

text \<open>\<^verbatim>\<open>v?.k\<close>: nothing on \<^verbatim>\<open>null\<close> and \<^verbatim>\<open>undefined\<close>, the property otherwise.\<close>

definition chain :: "jsval option \<Rightarrow> string \<Rightarrow> jsval option" where
  "chain v k = (case v of None \<Rightarrow> None | Some x \<Rightarrow> field x k)"

text \<open>\<^verbatim>\<open>v || d\<close>\<close>

definition or_else :: "jsval option \<Rightarrow> jsval \<Rightarrow> jsval" where
  "or_else v d = (case v of None \<Rightarrow> d | Some x \<Rightarrow> if truthy x then x else d)"

definition generateSimilarityGroup :: "jsval \<Rightarrow> string option \<Rightarrow> error + jsval" where
  "generateSimilarityGroup an thm =
     (case field an ''similar_features'' of
        None \<Rightarrow> Inr JNull
      | Some sf \<Rightarrow>
          if \<not> truthy sf then Inr JNull
          else (case sf of
                  JStr s \<Rightarrow>
                    (let base = (case thm of None \<Rightarrow> ''unknown'' | Some t \<Rightarrow> if t = [] then ''unknown'' else t);
                         similar = take 20 s;
                         hash = foldl hash_step 0 (base @ similar)
                     in Inr (JStr (''SIM-'' @ padStart3 (decimal \<bar>hash\<bar>))))
                | _ \<Rightarrow> Inl TypeError))"

text \<open>The rate limiter: at most 10 requests of a client in the last minute.\<close>

type_synonym counts = "(string \<times> int list) list"

fun map_set :: "string \<Rightarrow> int list \<Rightarrow> counts \<Rightarrow> counts" where
  "map_set k v [] = [(k, v)]"
| "map_set k v (p # ps) = (if fst p = k then (k, v) # ps else p # map_set k v ps)"

definition checkRateLimit :: "int \<Rightarrow> string \<Rightarrow> counts \<Rightarrow> bool \<times> counts" where
  "checkRateLimit now ip requestCounts =
     (let windowStart = now - 60000;
          requestCounts1 = (case map_of requestCounts ip of
                              None \<Rightarrow> map_set ip [] requestCounts
                            | Some r \<Rightarrow> requestCounts);
          requests = (case map_of requestCounts1 ip of None \<Rightarrow> [] | Some r \<Rightarrow> r);
          recentRequests = filter (\<lambda>time. time > windowStart) requests
      in if int (length recentRequests) \<ge> 10 then (False, requestCounts1)
         else (True, map_set ip (recentRequests @ [now]) requestCounts1))"

record body =
  body_issue :: "issue option"
  webhookEvent :: "string option"

record request =
  req_method :: string
  x_forwarded_for :: "string option"
  x_real_ip :: "string option"
  req_body :: "body option"
  now :: int

text \<open>
  A response: \<^verbatim>\<open>res.status(n).end()\<close>, or \<^verbatim>\<open>res.status(n).json(v)\<close> with the body as it
  is sent. \<^verbatim>\<open>json\<close> writes \<open>v\<close> with \<^verbatim>\<open>JSON.stringify\<close>, in which a Number that is NaN or
  infinite is \<^verbatim>\<open>null\<close> and an array has its elements only; \<open>serialized v\<close> is the value
  the client reads back.
\<close>

datatype response = End int | Json int jsval

fun serialized :: "jsval \<Rightarrow> jsval" where
  "serialized (JNum n) = (case n of Fin x \<Rightarrow> JNum (Fin x) | _ \<Rightarrow> JNull)"
| "serialized (JArr xs ps) = JArr (map serialized xs) []"
| "serialized (JObj ps) = JObj (map (map_prod id serialized) ps)"
| "serialized v = v"

definition json :: "int \<Rightarrow> jsval \<Rightarrow> response" where
  "json status v = Json status (serialized v)"

definition error_text :: "error \<Rightarrow> string" where
  "error_text e = (case e of Error m \<Rightarrow> ''Error: '' @ m | TypeError \<Rightarrow> ''TypeError'' | SyntaxError \<Rightarrow> ''SyntaxError'')"

definition header_or :: "string option \<Rightarrow> string \<Rightarrow> string" where
  "header_or h d = (case h of None \<Rightarrow> d | Some s \<Rightarrow> if s = [] then d else s)"

definition num :: "int \<Rightarrow> jsval" where
  "num n = JNum (Fin (of_int n))"

definition str_or_null :: "string option \<Rightarrow> jsval" where
  "str_or_null s = (case s of None \<Rightarrow> JNull | Some x \<Rightarrow> JStr x)"

text \<open>A member whose value is \<^verbatim>\<open>undefined\<close> is left out.\<close>

definition member :: "string \<Rightarrow> jsval option \<Rightarrow> (string \<times> jsval) list" where
  "member k v = (case v of None \<Rightarrow> [] | Some x \<Rightarrow> [(k, x)])"

text \<open>
  "Prepare Jira-friendly response format": the object of the 200 response, as it is handed
  to \<^verbatim>\<open>json\<close>.
\<close>

definition success_body :: "backends \<Rightarrow> string \<Rightarrow> issue option \<Rightarrow> triage_result \<Rightarrow> error + jsval" where
  "success_body env issueKey issueData result =
     (let an = (if res_analysis result = JNull then None else Some (res_analysis result));
          recommendation = or_else (chain an ''priority_recommendation'') (JStr ''On Hold'');
          importance = (case chain (chain an ''scores'') ''overall_priority'' of
                          None \<Rightarrow> num 0 | Some JNull \<Rightarrow> num 0 | Some x \<Rightarrow> x);
          classification = classifyBugOrFeature issueData;
          themes = (case res_theme result of None \<Rightarrow> [] | Some t \<Rightarrow> if t = [] then [] else [JStr t])
      in bnd (generateSimilarityGroup (res_analysis result) (res_theme result)) (\<lambda>similarity_group.
         let conf = (if truthy (res_analysis result) then lit (75 / 100) else Fin 0);
             notes = or_else (chain an ''executive_summary'') (JStr [])
         in Inr (JObj
              [(''recommendation'', recommendation),
               (''classification'', JStr classification),
               (''themes'', JArr themes []),
               (''similarity_group'', similarity_group),
               (''duplicate_keys'', JArr [] []),
               (''importance'', importance),
               (''confidence'', JNum conf),
               (''notes'', notes),
               (''status'', JStr ''success''),
               (''requestId'', JStr (requestId env)),
               (''issueKey'', JStr issueKey),
               (''result'', JObj
                  ([(''modelUsed'', JStr (header_or (themeModel result) ''Unknown'' @ '' (Theme) + ''
                                          @ header_or (priorityModel result) ''Unknown'' @ '' (Priority)'')),
                    (''responseTime'', num (responseTime result)),
                    (''analysis'', res_analysis result),
                    (''actions'', JArr (map JStr (actions result)) []),
                    (''theme'', str_or_null (res_theme result)),
                    (''themeModel'', str_or_null (themeModel result))]
                   @ member ''priorityModel'' (chain an ''modelUsed'')
                   @ [(''modelSummary'', JObj
                         ([(''themeClassification'', str_or_null (themeModel result))]
                          @ member ''priorityAnalysis'' (chain an ''modelUsed'')
                          @ [(''fallbackUsed'',
                              JBool (map_option JStr (themeModel result) \<noteq> chain an ''modelUsed''))])),
                      (''scores'', or_else (chain an ''scores'') (JObj [])),
                      (''priority_recommendation'', or_else (chain an ''priority_recommendation'') (JStr ''Not analyzed'')),
                      (''key_insights'', or_else (chain an ''key_insights'') (JArr [] [])),
                      (''risks'', or_else (chain an ''risks'') (JArr [] [])),
                      (''opportunities'', or_else (chain an ''opportunities'') (JArr [] [])),
                      (''similar_features'', or_else (chain an ''similar_features'') (JStr ''Not analyzed'')),
                      (''recommended_next_steps'', or_else (chain an ''recommended_next_steps'') (JArr [] [])),
                      (''executive_summary'', or_else (chain an ''executive_summary'') (JStr ''Not analyzed'')),
                      (''on_hold_reasoning'', or_else (chain an ''on_hold_reasoning'') (JStr ''Not applicable''))])),
               (''processingTime'', num (processingTime env))])))"

text \<open>The \<^verbatim>\<open>try\<close> block of the handler.\<close>

definition handle_webhook :: "backends \<Rightarrow> request \<Rightarrow> trace \<Rightarrow> (error + jsval) \<times> trace" where
  "handle_webhook env req tr0 =
     (case req_body req of
        None \<Rightarrow> (Inl TypeError, tr0)
      | Some data \<Rightarrow>
          (let tr1 = log_to ''WEBHOOK_RECEIVED'' tr0;
               issueKey = (case body_issue data of None \<Rightarrow> None | Some i \<Rightarrow> key i)
           in case issueKey of
                None \<Rightarrow> (Inl (Error ''No issue key provided in webhook''), tr1)
              | Some k \<Rightarrow>
                  if k = [] then (Inl (Error ''No issue key provided in webhook''), tr1)
                  else (let (result, tr2) =
                              processTicketWithFullTriage env k (body_issue data) (log_to ''WEBHOOK_PARSED'' tr1)
                        in (success_body env k (body_issue data) result, log_to ''PROCESSING_COMPLETE'' tr2))))"

definition handler :: "backends \<Rightarrow> counts \<Rightarrow> request \<Rightarrow> response \<times> counts \<times> trace" where
  "handler env requestCounts req =
     (let tr0 = \<lparr>logged = [], calls = []\<rparr>
      in if req_method req = ''OPTIONS'' then (End 200, requestCounts, tr0)
         else if req_method req \<noteq> ''POST''
         then (json 405 (JObj [(''error'', JStr ''Method not allowed'')]), requestCounts, tr0)
         else (let clientIP = header_or (x_forwarded_for req) (header_or (x_real_ip req) ''unknown'');
                   (allowed, requestCounts1) = checkRateLimit (now req) clientIP requestCounts
               in if \<not> allowed
                  then (json 429 (JObj [(''error'', JStr ''Rate limit exceeded. Please try again later.''),
                                        (''retryAfter'', num 60)]), requestCounts1, tr0)
                  else (case handle_webhook env req tr0 of
                          (Inr response_body, tr) \<Rightarrow> (json 200 response_body, requestCounts1, tr)
                        | (Inl e, tr) \<Rightarrow>
                            (json 500 (JObj [(''status'', JStr ''error''), (''requestId'', JStr (requestId env)),
                                             (''error'', JStr (error_text e))]),
                             requestCounts1, log_to ''ERROR'' tr))))"

section \<open>Notions the claims about the dispatches use\<close>

text \<open>
  A call fails when it throws; a call of the priority dispatch fails as well when its
  response does not parse to an analysis with scores.
\<close>

definition throws :: "error + string \<Rightarrow> bool" where
  "throws r = (case r of Inl e \<Rightarrow> True | Inr t \<Rightarrow> False)"

definition valid_analysis :: "string \<Rightarrow> bool" where
  "valid_analysis text =
     (case parseAIResponse_repairing text of Inr parsed \<Rightarrow> has_scores parsed | Inl e \<Rightarrow> False)"

definition fails_priority :: "error + string \<Rightarrow> bool" where
  "fails_priority r = (case r of Inl e \<Rightarrow> True | Inr text \<Rightarrow> \<not> valid_analysis text)"

text \<open>How often a dispatch that took the trace from \<open>tr\<close> to \<open>tr'\<close> called a provider.\<close>

definition attempts :: "provider \<Rightarrow> trace \<Rightarrow> trace \<Rightarrow> nat" where
  "attempts p tr tr' = count_list (drop (length (calls tr)) (calls tr')) p"

text \<open>A Number value, and a Number that is an integer from 0 to 100.\<close>

definition is_number :: "jsval \<Rightarrow> bool" where
  "is_number v = (case v of JNum n \<Rightarrow> True | _ \<Rightarrow> False)"

definition is_percentage :: "jsval \<Rightarrow> bool" where
  "is_percentage v =
     (case v of JNum (Fin x) \<Rightarrow> 0 \<le> x \<and> x \<le> 100 \<and> x = of_int \<lfloor>x\<rfloor> | _ \<Rightarrow> False)"

text \<open>
  The analysis a backend's answer stands for, and the analysis the priority dispatch
  settles on: that of the first configured backend whose answer is valid.
\<close>

definition parsed_of :: "error + string \<Rightarrow> jsval" where
  "parsed_of r =
     (case r of
        Inr text \<Rightarrow> (case parseAIResponse_repairing text of Inr v \<Rightarrow> v | Inl e \<Rightarrow> JNull)
      | Inl e \<Rightarrow> JNull)"

definition settled_analysis :: "backends \<Rightarrow> jsval" where
  "settled_analysis env =
     (if genAI env \<and> \<not> fails_priority (priority_gemini env) then parsed_of (priority_gemini env)
      else if anthropic env \<and> \<not> fails_priority (priority_claude env) then parsed_of (priority_claude env)
      else JNull)"

text \<open>An analysis whose \<^verbatim>\<open>similar_features\<close> is missing, falsy or a string.\<close>

definition summarisable :: "jsval \<Rightarrow> bool" where
  "summarisable an =
     (case field an ''similar_features'' of None \<Rightarrow> True | Some (JStr s) \<Rightarrow> True | Some v \<Rightarrow> \<not> truthy v)"

text \<open>The client a request is counted under.\<close>

definition clientIP :: "request \<Rightarrow> string" where
  "clientIP req = header_or (x_forwarded_for req) (header_or (x_real_ip req) ''unknown'')"

section \<open>Properties of the Number arithmetic\<close>

lemma pow2_powi: "pow2 k = 2 powi k"
proof (induction k rule: pow2.induct)
  case (1 k)
  show ?case
  proof (cases "k = 0")
    case True
    then show ?thesis by (simp add: pow2.simps)
  next
    case False
    show ?thesis
    proof (cases "0 < k")
      case True
      with 1 False have "pow2 k = 2 * 2 powi (k - 1)" by (simp add: pow2.simps[of k])
      also have "\<dots> = (2::rat) powi k" using power_int_add[of "2::rat" 1 "k - 1"] by simp
      finally show ?thesis .
    next
      case neg: False
      with 1 False have "pow2 k = 2 powi (k + 1) / 2" by (simp add: pow2.simps[of k])
      also have "\<dots> = (2::rat) powi k" using power_int_add[of "2::rat" "k + 1" "-1"] by simp
      finally show ?thesis .
    qed
  qed
qed

lemma pow2_pos: "0 < pow2 k"
  by (simp add: pow2_powi)

lemma pow2_mono: "a \<le> b \<Longrightarrow> pow2 a \<le> pow2 b"
  by (simp add: pow2_powi power_int_increasing)

lemma pow2_less_imp: "pow2 a < pow2 b \<Longrightarrow> a < b"
  using pow2_mono[of b a] by (cases "a < b") auto

lemma binade_lower:
  assumes "x \<noteq> 0"
  shows "pow2 (binade x) \<le> \<bar>x\<bar>"
proof -
  obtain p q where pq: "quotient_of \<bar>x\<bar> = (p, q)" by (cases "quotient_of \<bar>x\<bar>")
  have q: "0 < q" using quotient_of_denom_pos[OF pq] .
  have xe: "\<bar>x\<bar> = of_int p / of_int q" using quotient_of_div[OF pq] .
  have "0 < rat_of_int p / rat_of_int q" using assms xe by (metis zero_less_abs_iff)
  then have p: "0 < p" using q by (simp add: zero_less_divide_iff)
  define k where "k = bitlen p - bitlen q"
  show ?thesis
  proof (cases "pow2 k \<le> \<bar>x\<bar>")
    case True
    then show ?thesis by (simp add: binade_def pq k_def Let_def)
  next
    case False
    then have b: "binade x = k - 1" by (simp add: binade_def pq k_def Let_def)
    have bp: "2 ^ nat (bitlen p - 1) \<le> p" using bitlen_bounds[OF p] by simp
    have bq: "q < 2 ^ nat (bitlen q)" using bitlen_bounds[OF q] by simp
    have bp1: "1 \<le> bitlen p"
    proof (rule ccontr)
      assume "\<not> 1 \<le> bitlen p"
      then have "nat (bitlen p) = 0" by simp
      then have "p < 1" using bitlen_bounds[OF p] by simp
      then show False using p by simp
    qed
    have P: "(2::rat) powi (bitlen p - 1) \<le> of_int p"
    proof -
      have "(2::rat) powi (bitlen p - 1) = 2 ^ nat (bitlen p - 1)" using bp1 by (simp add: power_int_def)
      also have "\<dots> = of_int (2 ^ nat (bitlen p - 1))" by simp
      also have "\<dots> \<le> of_int p" using bp by (simp only: of_int_le_iff)
      finally show ?thesis .
    qed
    have Q: "of_int q < (2::rat) powi (bitlen q)"
    proof -
      have "of_int q < (of_int (2 ^ nat (bitlen q)) :: rat)" using bq by (simp only: of_int_less_iff)
      also have "\<dots> = 2 powi (bitlen q)" using bitlen_nonneg[of q] by (simp add: power_int_def)
      finally show ?thesis .
    qed
    have "pow2 (k - 1) = 2 powi (bitlen p - 1) / 2 powi (bitlen q)"
      by (simp add: pow2_powi k_def power_int_diff)
    also have "\<dots> \<le> of_int p / 2 powi (bitlen q)"
      using P by (simp add: divide_right_mono)
    also have "\<dots> \<le> of_int p / of_int q"
      using Q p q by (simp add: frac_le)
    finally show ?thesis using b xe by simp
  qed
qed

lemma round_half_even_error: "\<bar>of_int (round_half_even r) - r\<bar> \<le> 1 / 2"
proof -
  have "of_int \<lfloor>r\<rfloor> \<le> r" "r < of_int \<lfloor>r\<rfloor> + 1" by linarith+
  then show ?thesis unfolding round_half_even_def Let_def by (simp split: if_splits)
qed

lemma round_half_even_nonneg: "0 \<le> r \<Longrightarrow> 0 \<le> round_half_even r"
  unfolding round_half_even_def Let_def by (simp split: if_splits)


lemma quantum_pos: "0 < quantum x"
  by (simp add: quantum_def pow2_pos)

lemma quantum_small:
  assumes "x \<noteq> 0" "\<bar>x\<bar> < 128"
  shows "quantum x \<le> 1 / 2 ^ 46"
proof -
  have "pow2 (binade x) < pow2 7"
    using binade_lower[OF assms(1)] assms(2) by (simp add: pow2_powi[of 7])
  then have "binade x < 7" by (rule pow2_less_imp)
  then have "max (binade x) (- 1022) - 52 \<le> - 46" by simp
  then have "quantum x \<le> pow2 (- 46)" unfolding quantum_def by (rule pow2_mono)
  then show ?thesis by (simp add: pow2_powi power_int_minus divide_simps)
qed

lemma nearest_error:
  assumes "\<bar>x\<bar> < 128"
  shows "\<bar>nearest x - x\<bar> \<le> 1 / 2 ^ 47"
proof (cases "x = 0")
  case True
  then show ?thesis by (simp add: nearest_def)
next
  case False
  define q where "q = quantum x"
  have q: "0 < q" "q \<le> 1 / 2 ^ 46"
    using quantum_pos quantum_small[OF False assms] by (simp_all add: q_def)
  have "nearest x - x = q * (of_int (round_half_even (x / q)) - x / q)"
    using False q(1) by (simp add: nearest_def q_def algebra_simps)
  then have "\<bar>nearest x - x\<bar> = q * \<bar>of_int (round_half_even (x / q)) - x / q\<bar>"
    using q(1) by (simp add: abs_mult)
  also have "\<dots> \<le> q * (1 / 2)"
    using round_half_even_error[of "x / q"] q(1) by (simp add: mult_left_mono)
  also have "\<dots> \<le> 1 / 2 ^ 47" using q(2) by simp
  finally show ?thesis .
qed

lemma nearest_nonneg: "0 \<le> x \<Longrightarrow> 0 \<le> nearest x"
  using quantum_pos[of x] round_half_even_nonneg[of "x / quantum x"]
  by (simp add: nearest_def)

lemma fl_small:
  assumes "\<bar>x\<bar> < 128"
  shows "fl x = Fin (nearest x)"
proof -
  have y: "\<bar>nearest x\<bar> < 129" using nearest_error[OF assms] assms by (simp add: abs_if split: if_splits)
  have "binade (nearest x) < 1024" if "nearest x \<noteq> 0"
  proof -
    have "pow2 (binade (nearest x)) < pow2 8"
      using binade_lower[OF that] y by (simp add: pow2_powi[of 8])
    then have "binade (nearest x) < 8" by (rule pow2_less_imp)
    then show ?thesis by simp
  qed
  then show ?thesis by (auto simp: fl_def Let_def)
qed

lemma weight_values:
  "lit (35 / 100) = Fin (3152519739159347 / 9007199254740992)"
  "lit (25 / 100) = Fin (1 / 4)"
  "lit (15 / 100) = Fin (5404319552844595 / 36028797018963968)"
  by code_simp+


lemma nearest_bounds:
  assumes "0 \<le> x" "x < 128"
  shows "fl x = Fin (nearest x)" "0 \<le> nearest x" "nearest x \<le> x + 1 / 2 ^ 47" "x - 1 / 2 ^ 47 \<le> nearest x"
proof -
  have a: "\<bar>x\<bar> < 128" using assms by simp
  show "fl x = Fin (nearest x)" by (rule fl_small[OF a])
  show "0 \<le> nearest x" by (rule nearest_nonneg[OF assms(1)])
  show "nearest x \<le> x + 1 / 2 ^ 47" "x - 1 / 2 ^ 47 \<le> nearest x"
    using nearest_error[OF a] by linarith+
qed

lemma weighted_sum_float:
  assumes "0 \<le> bi" "bi \<le> 100" "0 \<le> sf" "sf \<le> 100" "0 \<le> cc" "cc \<le> 100" "0 \<le> e" "e \<le> 100"
  shows "\<exists>y. js_add (js_add (js_add (js_mul (Fin bi) (lit (35 / 100))) (js_mul (Fin sf) (lit (25 / 100))))
                   (js_mul (Fin cc) (lit (25 / 100)))) (js_mul (Fin e) (lit (15 / 100))) = Fin y
           \<and> 0 \<le> y \<and> \<bar>y - weighted_sum bi sf cc e\<bar> \<le> 1 / 2 ^ 44"
proof -
  define w1 :: rat where "w1 = 3152519739159347 / 9007199254740992"
  define w4 :: rat where "w4 = 5404319552844595 / 36028797018963968"
  define a where "a = nearest (bi * w1)"
  define b where "b = nearest (sf * (1 / 4))"
  define c where "c = nearest (cc * (1 / 4))"
  define d where "d = nearest (e * w4)"
  define s1 where "s1 = nearest (a + b)"
  define s2 where "s2 = nearest (s1 + c)"
  define s3 where "s3 = nearest (s2 + d)"
  have A: "fl (bi * w1) = Fin a" "0 \<le> a" "a \<le> bi * w1 + 1 / 2 ^ 47" "bi * w1 - 1 / 2 ^ 47 \<le> a"
    unfolding a_def using assms(1,2) by (intro nearest_bounds; simp add: w1_def)+
  have B: "fl (sf * (1 / 4)) = Fin b" "0 \<le> b" "b \<le> sf * (1 / 4) + 1 / 2 ^ 47" "sf * (1 / 4) - 1 / 2 ^ 47 \<le> b"
    unfolding b_def using assms(3,4) by (intro nearest_bounds; simp)+
  have C: "fl (cc * (1 / 4)) = Fin c" "0 \<le> c" "c \<le> cc * (1 / 4) + 1 / 2 ^ 47" "cc * (1 / 4) - 1 / 2 ^ 47 \<le> c"
    unfolding c_def using assms(5,6) by (intro nearest_bounds; simp)+
  have D: "fl (e * w4) = Fin d" "0 \<le> d" "d \<le> e * w4 + 1 / 2 ^ 47" "e * w4 - 1 / 2 ^ 47 \<le> d"
    unfolding d_def using assms(7,8) by (intro nearest_bounds; simp add: w4_def)+
  have ab: "0 \<le> a + b" "a + b < 128"
    using A B assms by (simp_all add: w1_def)
  have S1: "fl (a + b) = Fin s1" "0 \<le> s1" "s1 \<le> a + b + 1 / 2 ^ 47" "a + b - 1 / 2 ^ 47 \<le> s1"
    unfolding s1_def using ab by (intro nearest_bounds; simp)+
  have s1c: "0 \<le> s1 + c" "s1 + c < 128"
    using A B C S1 assms by (simp_all add: w1_def)
  have S2: "fl (s1 + c) = Fin s2" "0 \<le> s2" "s2 \<le> s1 + c + 1 / 2 ^ 47" "s1 + c - 1 / 2 ^ 47 \<le> s2"
    unfolding s2_def using s1c by (intro nearest_bounds; simp)+
  have s2d: "0 \<le> s2 + d" "s2 + d < 128"
    using A B C D S1 S2 assms by (simp_all add: w1_def w4_def)
  have S3: "fl (s2 + d) = Fin s3" "0 \<le> s3" "s3 \<le> s2 + d + 1 / 2 ^ 47" "s2 + d - 1 / 2 ^ 47 \<le> s3"
    unfolding s3_def using s2d by (intro nearest_bounds; simp)+
  have eq: "js_add (js_add (js_add (js_mul (Fin bi) (lit (35 / 100))) (js_mul (Fin sf) (lit (25 / 100))))
                   (js_mul (Fin cc) (lit (25 / 100)))) (js_mul (Fin e) (lit (15 / 100))) = Fin s3"
    unfolding weight_values js_mul.simps js_add.simps w1_def[symmetric] w4_def[symmetric]
      A(1) B(1) C(1) D(1) S1(1) S2(1) S3(1) ..
  have "\<bar>s3 - weighted_sum bi sf cc e\<bar> \<le> 1 / 2 ^ 44"
    using A(3,4) B(3,4) C(3,4) D(3,4) S1(3,4) S2(3,4) S3(3,4) assms
    unfolding weighted_sum_def w1_def w4_def abs_le_iff by (simp; linarith)
  with eq S3(2) show ?thesis by blast
qed


lemma weighted_in_range:
  assumes "in_range (map_of ps k)"
  shows "weighted (JObj ps) k w = Inr (js_mul (Fin (number_or_zero (map_of ps k))) w)"
    and "0 \<le> number_or_zero (map_of ps k)" and "number_or_zero (map_of ps k) \<le> 100"
  using assms
  by (auto simp: in_range_def weighted_def bnd_def number_or_zero_def
           split: option.splits jsval.splits jsnum.splits)

lemma table_effort_named:
  assumes "s \<notin> set inherited_names"
  shows "(case effortScores_named s of Own n \<Rightarrow> Inr n | Inherited \<Rightarrow> Inr NaN | Undefined \<Rightarrow> Inr (Fin 50))
         = (Inr (Fin (table_effort (Some (JStr s)))) :: error + jsnum)"
  using assms by (simp add: effortScores_named_def effortScores_def table_effort_def)

lemma table_effort_range: "0 \<le> table_effort sz \<and> table_effort sz \<le> 100"
  by (simp add: table_effort_def split: option.splits jsval.splits)

lemma effortScore_in_range:
  assumes "in_range (map_of ps ''effort_score'')" "size_label (map_of ps ''effort_size'')"
  shows "effortScore (JObj ps) =
           Inr (Fin (effort_by_design (map_of ps ''effort_score'') (map_of ps ''effort_size'')))"
    and "0 \<le> effort_by_design (map_of ps ''effort_score'') (map_of ps ''effort_size'')"
    and "effort_by_design (map_of ps ''effort_score'') (map_of ps ''effort_size'') \<le> 100"
proof -
  have tbl: "bnd (effortScores_at (map_of ps ''effort_size''))
               (\<lambda>r. case r of Own n \<Rightarrow> Inr n | Inherited \<Rightarrow> Inr NaN | Undefined \<Rightarrow> Inr (Fin 50))
             = Inr (Fin (table_effort (map_of ps ''effort_size'')))"
    using assms(2) table_effort_named
    by (auto simp: size_label_def bnd_def table_effort_def split: option.splits jsval.splits)
  show "effortScore (JObj ps) =
           Inr (Fin (effort_by_design (map_of ps ''effort_score'') (map_of ps ''effort_size'')))"
    using assms(1) tbl
    by (auto simp: in_range_def effortScore_def effort_by_design_def bnd_def
             split: option.splits jsval.splits jsnum.splits)
  show "0 \<le> effort_by_design (map_of ps ''effort_score'') (map_of ps ''effort_size'')"
    "effort_by_design (map_of ps ''effort_score'') (map_of ps ''effort_size'') \<le> 100"
    using assms(1) table_effort_range[of "map_of ps ''effort_size''"]
    by (auto simp: in_range_def effort_by_design_def split: option.splits jsval.splits jsnum.splits)
qed

lemma weighted_sum_le:
  assumes "bi \<le> 100" "sf \<le> 100" "cc \<le> 100" "e \<le> 100"
  shows "weighted_sum bi sf cc e \<le> 100"
  using assms unfolding weighted_sum_def by linarith

lemma round_near:
  assumes "\<bar>y - X\<bar> \<le> e" "0 \<le> y" "X \<le> 100" "0 \<le> e" "e < 1 / 2"
  shows "0 \<le> \<lfloor>y + 1 / 2\<rfloor>" "\<lfloor>y + 1 / 2\<rfloor> \<le> 100"
    "\<bar>of_int \<lfloor>y + 1 / 2\<rfloor> - X\<bar> \<le> 1 / 2 + e"
    "e \<le> frac (X + 1 / 2) \<and> frac (X + 1 / 2) < 1 - e \<longrightarrow> \<lfloor>y + 1 / 2\<rfloor> = \<lfloor>X + 1 / 2\<rfloor>"
proof -
  have fl: "of_int \<lfloor>y + 1 / 2\<rfloor> \<le> y + 1 / 2" "y + 1 / 2 < of_int \<lfloor>y + 1 / 2\<rfloor> + 1" by linarith+
  show "0 \<le> \<lfloor>y + 1 / 2\<rfloor>" using assms(2) by simp
  have "y + 1 / 2 < 101" using assms by linarith
  then have "\<lfloor>y + 1 / 2\<rfloor> < 101" by (simp add: floor_less_iff)
  then show "\<lfloor>y + 1 / 2\<rfloor> \<le> 100" by simp
  show "\<bar>of_int \<lfloor>y + 1 / 2\<rfloor> - X\<bar> \<le> 1 / 2 + e" using fl assms(1) by linarith
  show "e \<le> frac (X + 1 / 2) \<and> frac (X + 1 / 2) < 1 - e \<longrightarrow> \<lfloor>y + 1 / 2\<rfloor> = \<lfloor>X + 1 / 2\<rfloor>"
  proof
    assume f: "e \<le> frac (X + 1 / 2) \<and> frac (X + 1 / 2) < 1 - e"
    have X: "X + 1 / 2 = of_int \<lfloor>X + 1 / 2\<rfloor> + frac (X + 1 / 2)" by (simp add: frac_def)
    have "of_int \<lfloor>X + 1 / 2\<rfloor> \<le> y + 1 / 2" "y + 1 / 2 < of_int \<lfloor>X + 1 / 2\<rfloor> + 1"
      using f X assms(1) by linarith+
    then show "\<lfloor>y + 1 / 2\<rfloor> = \<lfloor>X + 1 / 2\<rfloor>" by (rule floor_unique)
  qed
qed


lemma calculateOverallPriority_in_range:
  assumes h: "in_range (map_of ps ''business_impact'') \<and> in_range (map_of ps ''strategic_fit'')
    \<and> in_range (map_of ps ''cross_client_value'') \<and> in_range (map_of ps ''effort_score'')
    \<and> size_label (map_of ps ''effort_size'')"
  shows "\<exists>r. calculateOverallPriority (JObj ps) = Inr (Fin (of_int r))
          \<and> 0 \<le> r \<and> r \<le> 100
          \<and> \<bar>of_int r - exact_overall ps\<bar> \<le> 1 / 2 + 1 / 2 ^ 44
          \<and> (1 / 2 ^ 44 \<le> frac (exact_overall ps + 1 / 2) \<and> frac (exact_overall ps + 1 / 2) < 1 - 1 / 2 ^ 44
               \<longrightarrow> r = round_half_up (exact_overall ps))"
proof -
  define bi where "bi = number_or_zero (map_of ps ''business_impact'')"
  define sf where "sf = number_or_zero (map_of ps ''strategic_fit'')"
  define cc where "cc = number_or_zero (map_of ps ''cross_client_value'')"
  define e where "e = effort_by_design (map_of ps ''effort_score'') (map_of ps ''effort_size'')"
  have B: "weighted (JObj ps) ''business_impact'' w = Inr (js_mul (Fin bi) w)" "0 \<le> bi" "bi \<le> 100" for w
    using h weighted_in_range[of ps "''business_impact''"] by (simp_all add: bi_def)
  have S: "weighted (JObj ps) ''strategic_fit'' w = Inr (js_mul (Fin sf) w)" "0 \<le> sf" "sf \<le> 100" for w
    using h weighted_in_range[of ps "''strategic_fit''"] by (simp_all add: sf_def)
  have C: "weighted (JObj ps) ''cross_client_value'' w = Inr (js_mul (Fin cc) w)" "0 \<le> cc" "cc \<le> 100" for w
    using h weighted_in_range[of ps "''cross_client_value''"] by (simp_all add: cc_def)
  have E: "effortScore (JObj ps) = Inr (Fin e)" "0 \<le> e" "e \<le> 100"
    using h effortScore_in_range[of ps] by (simp_all add: e_def)
  obtain y where y: "js_add (js_add (js_add (js_mul (Fin bi) (lit (35 / 100))) (js_mul (Fin sf) (lit (25 / 100))))
                   (js_mul (Fin cc) (lit (25 / 100)))) (js_mul (Fin e) (lit (15 / 100))) = Fin y"
      "0 \<le> y" "\<bar>y - weighted_sum bi sf cc e\<bar> \<le> 1 / 2 ^ 44"
    using weighted_sum_float[OF B(2,3) S(2,3) C(2,3) E(2,3)] by blast
  have X: "exact_overall ps = weighted_sum bi sf cc e"
    by (simp add: exact_overall_def bi_def sf_def cc_def e_def)
  have X100: "exact_overall ps \<le> 100"
    unfolding X by (rule weighted_sum_le[OF B(3) S(3) C(3) E(3)])
  have calc: "calculateOverallPriority (JObj ps) = Inr (Fin (of_int \<lfloor>y + 1 / 2\<rfloor>))"
    unfolding calculateOverallPriority_def Let_def E(1) B(1) S(1) C(1) bnd_def sum.case y(1) Math_round.simps ..
  have yX: "\<bar>y - exact_overall ps\<bar> \<le> 1 / 2 ^ 44" using y(3) X by simp
  note R = round_near[OF yX y(2) X100]
  have e0: "(0::rat) \<le> 1 / 2 ^ 44" "(1::rat) / 2 ^ 44 < 1 / 2" by simp_all
  show "\<exists>r. calculateOverallPriority (JObj ps) = Inr (Fin (of_int r))
          \<and> 0 \<le> r \<and> r \<le> 100
          \<and> \<bar>of_int r - exact_overall ps\<bar> \<le> 1 / 2 + 1 / 2 ^ 44
          \<and> (1 / 2 ^ 44 \<le> frac (exact_overall ps + 1 / 2) \<and> frac (exact_overall ps + 1 / 2) < 1 - 1 / 2 ^ 44
               \<longrightarrow> r = round_half_up (exact_overall ps))"
    unfolding round_half_up_def
    using calc R(1)[OF e0] R(2)[OF e0] R(3)[OF e0] R(4)[OF e0] by blast
qed

section \<open>Claim C1: the weighted formula\<close>




section \<open>Properties of the parser\<close>

lemma map_of_define_property:
  "map_of (define_property k v ps) k' = (if k' = k then Some v else map_of ps k')"
  by (induction ps) auto

lemma Get_field: "v \<noteq> JNull \<Longrightarrow> Get v k = Inr (field v k)"
  by (cases v) (simp_all add: field_def)

lemma field_Put:
  "Put v k x = Inr v' \<Longrightarrow> field v' k' = (if k' = k then Some x else field v k')"
  by (cases v) (auto simp: field_def map_of_define_property)

text \<open>What the validation returns: \<^verbatim>\<open>null\<close>, the parsed object itself, or the parsed
  object with the computed priority stored in its scores.\<close>

lemma validate_and_fill_result:
  assumes "validate_and_fill parsed = Inr v" "v \<noteq> JNull"
  shows "\<exists>sc r. field parsed ''scores'' = Some sc \<and> truthy sc
           \<and> field parsed ''priority_recommendation'' = Some r \<and> truthy r
           \<and> field v ''priority_recommendation'' = Some r
           \<and> ((truthy_opt (field sc ''overall_priority'') \<and> v = parsed)
              \<or> (\<not> truthy_opt (field sc ''overall_priority'')
                  \<and> (\<exists>n sc'. calculateOverallPriority sc = Inr n
                        \<and> Put sc ''overall_priority'' (JNum n) = Inr sc'
                        \<and> Put parsed ''scores'' sc' = Inr v)))"
proof -
  have nn: "parsed \<noteq> JNull" using assms by (auto simp: validate_and_fill_def bnd_def)
  obtain sc where sc: "field parsed ''scores'' = Some sc" "truthy sc"
    using assms nn by (auto simp: validate_and_fill_def bnd_def Get_field split: option.splits if_splits)
  have scn: "sc \<noteq> JNull" using sc(2) by auto
  obtain r where r: "field parsed ''priority_recommendation'' = Some r" "truthy r"
    using assms nn sc
    by (cases "field parsed ''priority_recommendation''")
       (auto simp: validate_and_fill_def bnd_def Get_field split: if_splits)
  show ?thesis
  proof (cases "truthy_opt (field sc ''overall_priority'')")
    case True
    then have "v = parsed"
      using assms nn sc scn r by (auto simp: validate_and_fill_def bnd_def Get_field)
    with True sc r show ?thesis by auto
  next
    case False
    then have *: "bnd (calculateOverallPriority sc) (\<lambda>n.
                    bnd (Put sc ''overall_priority'' (JNum n)) (\<lambda>sc'. Put parsed ''scores'' sc')) = Inr v"
      using assms nn sc scn r by (auto simp: validate_and_fill_def bnd_def Get_field)
    then obtain n where n: "calculateOverallPriority sc = Inr n"
      by (cases "calculateOverallPriority sc") (auto simp: bnd_def)
    with * obtain sc' where sc': "Put sc ''overall_priority'' (JNum n) = Inr sc'"
      by (cases "Put sc ''overall_priority'' (JNum n)") (auto simp: bnd_def)
    with * n have v: "Put parsed ''scores'' sc' = Inr v" by (simp add: bnd_def)
    have "field v ''priority_recommendation'' = Some r" using field_Put[OF v] r by simp
    with False sc r n sc' v show ?thesis by auto
  qed
qed

lemma validate_and_fill_missing:
  assumes "field parsed ''scores'' = None \<or> field parsed ''priority_recommendation'' = None"
  shows "validate_and_fill parsed = Inl TypeError \<or> validate_and_fill parsed = Inr JNull"
proof (cases "parsed = JNull")
  case True
  then show ?thesis by (simp add: validate_and_fill_def bnd_def)
next
  case False
  then show ?thesis using assms
    by (auto simp: validate_and_fill_def bnd_def Get_field split: option.splits)
qed

lemma parse_body_extracted:
  "parse_body repair text =
     (case extracted_json repair text of
        None \<Rightarrow> (case extract_json text of Inl e \<Rightarrow> Inl e | Inr x \<Rightarrow> Inl SyntaxError)
      | Some parsed \<Rightarrow> validate_and_fill parsed)"
  by (auto simp: parse_body_def extracted_json_def bnd_def Let_def split: sum.splits option.splits)

lemma try_catch_null:
  "try_catch body (\<lambda>error. Inr JNull) = (case body of Inl e \<Rightarrow> Inr JNull | Inr v \<Rightarrow> Inr v)"
  by (simp add: try_catch_def)

text \<open>Both variants, through the repair step they use.\<close>

lemma parser_returns:
  "\<exists>v. parse_with repair text = Inr v"
  by (cases "parse_body repair text") (simp_all add: parse_with_def try_catch_def)

lemma parser_result:
  assumes "parse_with repair text = Inr v" "v \<noteq> JNull"
  shows "\<exists>parsed. extracted_json repair text = Some parsed \<and> validate_and_fill parsed = Inr v"
  using assms
  by (auto simp: parse_with_def try_catch_def parse_body_extracted split: sum.splits option.splits)

lemma parser_throws:
  "parse_body repair text = Inl e \<Longrightarrow> parse_with repair text = Inr JNull"
  by (simp add: parse_with_def try_catch_def)

lemma parser_missing:
  assumes "extracted_json repair text = Some parsed"
    "field parsed ''scores'' = None \<or> field parsed ''priority_recommendation'' = None"
  shows "parse_with repair text = Inr JNull"
  using validate_and_fill_missing[OF assms(2)] assms(1)
  by (auto simp: parse_with_def try_catch_def parse_body_extracted)

lemma parser_all_or_nothing:
  "(\<forall>parsed. extracted_json repair text = Some parsed
        \<and> (field parsed ''scores'' = None \<or> field parsed ''priority_recommendation'' = None)
        \<longrightarrow> parse_with repair text = Inr JNull)
   \<and> (\<forall>v. parse_with repair text = Inr v \<and> v \<noteq> JNull \<longrightarrow>
         (\<exists>parsed sc r. extracted_json repair text = Some parsed
            \<and> field parsed ''scores'' = Some sc
            \<and> field v ''scores'' \<noteq> None
            \<and> field v ''priority_recommendation'' = Some r \<and> truthy r
            \<and> (field sc ''overall_priority'' = None \<longrightarrow>
                  (\<exists>n. calculateOverallPriority sc = Inr n \<and> overall_priority_of v = Some (JNum n)))))"
proof (intro conjI allI impI)
  fix parsed
  assume "extracted_json repair text = Some parsed
        \<and> (field parsed ''scores'' = None \<or> field parsed ''priority_recommendation'' = None)"
  then show "parse_with repair text = Inr JNull" using parser_missing by blast
next
  fix v
  assume a: "parse_with repair text = Inr v \<and> v \<noteq> JNull"
  then obtain parsed where p: "extracted_json repair text = Some parsed" "validate_and_fill parsed = Inr v"
    using parser_result by blast
  from validate_and_fill_result[OF p(2)] a obtain sc r where
    sc: "field parsed ''scores'' = Some sc" "truthy sc"
    and r: "field v ''priority_recommendation'' = Some r" "truthy r"
    and d: "(truthy_opt (field sc ''overall_priority'') \<and> v = parsed)
              \<or> (\<not> truthy_opt (field sc ''overall_priority'')
                  \<and> (\<exists>n sc'. calculateOverallPriority sc = Inr n
                        \<and> Put sc ''overall_priority'' (JNum n) = Inr sc'
                        \<and> Put parsed ''scores'' sc' = Inr v))"
    by blast
  have s: "field v ''scores'' \<noteq> None" using d sc by (auto simp: field_Put)
  have o: "\<exists>n. calculateOverallPriority sc = Inr n \<and> overall_priority_of v = Some (JNum n)"
    if "field sc ''overall_priority'' = None"
  proof -
    from d that obtain n sc' where n: "calculateOverallPriority sc = Inr n"
      "Put sc ''overall_priority'' (JNum n) = Inr sc'" "Put parsed ''scores'' sc' = Inr v"
      by auto
    have "overall_priority_of v = Some (JNum n)"
      using field_Put[OF n(3), of "''scores''"] field_Put[OF n(2), of "''overall_priority''"]
      by (simp add: overall_priority_of_def)
    with n(1) show ?thesis by blast
  qed
  show "\<exists>parsed sc r. extracted_json repair text = Some parsed
            \<and> field parsed ''scores'' = Some sc
            \<and> field v ''scores'' \<noteq> None
            \<and> field v ''priority_recommendation'' = Some r \<and> truthy r
            \<and> (field sc ''overall_priority'' = None \<longrightarrow>
                  (\<exists>n. calculateOverallPriority sc = Inr n \<and> overall_priority_of v = Some (JNum n)))"
    by (rule exI[of _ parsed], rule exI[of _ sc], rule exI[of _ r]) (use p(1) sc(1) s r o in blast)
qed

section \<open>Claim C3: all or nothing\<close>

text \<open>
  C3. In both variants of \<open>parseAIResponse\<close>: when the JSON value the text is parsed to has
  no \<^verbatim>\<open>scores\<close> or no \<^verbatim>\<open>priority_recommendation\<close>, the result is \<^verbatim>\<open>null\<close>; a result that
  is not \<^verbatim>\<open>null\<close> has both, and when the parsed scores had no \<^verbatim>\<open>overall_priority\<close> the
  result carries the value \<open>calculateOverallPriority\<close> computes from them.
\<close>

theorem parseAIResponse_all_or_nothing:
  "((\<forall>parsed. extracted_json (\<lambda>jsonStr. jsonStr) text = Some parsed
        \<and> (field parsed ''scores'' = None \<or> field parsed ''priority_recommendation'' = None)
        \<longrightarrow> parseAIResponse text = Inr JNull)
   \<and> (\<forall>v. parseAIResponse text = Inr v \<and> v \<noteq> JNull \<longrightarrow>
         (\<exists>parsed sc r. extracted_json (\<lambda>jsonStr. jsonStr) text = Some parsed
            \<and> field parsed ''scores'' = Some sc
            \<and> field v ''scores'' \<noteq> None
            \<and> field v ''priority_recommendation'' = Some r \<and> truthy r
            \<and> (field sc ''overall_priority'' = None \<longrightarrow>
                  (\<exists>n. calculateOverallPriority sc = Inr n \<and> overall_priority_of v = Some (JNum n))))))
   \<and> ((\<forall>parsed. extracted_json repair_braces text = Some parsed
        \<and> (field parsed ''scores'' = None \<or> field parsed ''priority_recommendation'' = None)
        \<longrightarrow> parseAIResponse_repairing text = Inr JNull)
   \<and> (\<forall>v. parseAIResponse_repairing text = Inr v \<and> v \<noteq> JNull \<longrightarrow>
         (\<exists>parsed sc r. extracted_json repair_braces text = Some parsed
            \<and> field parsed ''scores'' = Some sc
            \<and> field v ''scores'' \<noteq> None
            \<and> field v ''priority_recommendation'' = Some r \<and> truthy r
            \<and> (field sc ''overall_priority'' = None \<longrightarrow>
                  (\<exists>n. calculateOverallPriority sc = Inr n \<and> overall_priority_of v = Some (JNum n))))))"
  unfolding parseAIResponse_def parseAIResponse_repairing_def
  using parser_all_or_nothing[of "\<lambda>jsonStr. jsonStr" "text"] parser_all_or_nothing[of repair_braces "text"]
  by blast

text \<open>
  The theorem at a response without scores, which gives \<^verbatim>\<open>null\<close>, and at a response
  whose scores have no \<^verbatim>\<open>overall_priority\<close>, where the parser returns an object that
  carries the computed 11.
\<close>

theorem parseAIResponse_all_or_nothing_witness:
  "parseAIResponse ''{\"priority_recommendation\":\"Low\"}'' = Inr JNull
   \<and> (\<exists>v. parseAIResponse ''{\"scores\":{\"business_impact\":10},\"priority_recommendation\":\"Low\"}'' = Inr v
          \<and> v \<noteq> JNull \<and> overall_priority_of v = Some (JNum (Fin 11)))"
proof
  have e: "extracted_json (\<lambda>jsonStr. jsonStr) ''{\"priority_recommendation\":\"Low\"}''
             = Some (JObj [(''priority_recommendation'', JStr ''Low'')])"
    by code_simp
  have f: "field (JObj [(''priority_recommendation'', JStr ''Low'')]) ''scores'' = None"
    by (simp add: field_def)
  show "parseAIResponse ''{\"priority_recommendation\":\"Low\"}'' = Inr JNull"
    using parseAIResponse_all_or_nothing[of "''{\"priority_recommendation\":\"Low\"}''", THEN conjunct1, THEN conjunct1] e f by blast
next
  define resp where "resp = ''{\"scores\":{\"business_impact\":10},\"priority_recommendation\":\"Low\"}''"
  define v where "v = JObj [(''scores'', JObj [(''business_impact'', JNum (Fin 10)), (''overall_priority'', JNum (Fin 11))]),
               (''priority_recommendation'', JStr ''Low'')]"
  define p where "p = JObj [(''scores'', JObj [(''business_impact'', JNum (Fin 10))]), (''priority_recommendation'', JStr ''Low'')]"
  have r: "parseAIResponse resp = Inr v" unfolding resp_def v_def by code_simp
  have e: "extracted_json (\<lambda>jsonStr. jsonStr) resp = Some p" unfolding resp_def p_def by code_simp
  have c: "calculateOverallPriority (JObj [(''business_impact'', JNum (Fin 10))]) = Inr (Fin 11)"
    by code_simp
  have nn: "v \<noteq> JNull" by (simp add: v_def)
  note T = parseAIResponse_all_or_nothing[of resp, THEN conjunct1, THEN conjunct2, rule_format, of v]
  have "\<exists>parsed sc r. extracted_json (\<lambda>jsonStr. jsonStr) resp = Some parsed
            \<and> field parsed ''scores'' = Some sc
            \<and> field v ''scores'' \<noteq> None
            \<and> field v ''priority_recommendation'' = Some r \<and> truthy r
            \<and> (field sc ''overall_priority'' = None \<longrightarrow>
                  (\<exists>n. calculateOverallPriority sc = Inr n \<and> overall_priority_of v = Some (JNum n)))"
    by (rule T) (simp add: r nn)
  then obtain parsed sc r where h: "extracted_json (\<lambda>jsonStr. jsonStr) resp = Some parsed
            \<and> field parsed ''scores'' = Some sc
            \<and> field v ''scores'' \<noteq> None
            \<and> field v ''priority_recommendation'' = Some r \<and> truthy r
            \<and> (field sc ''overall_priority'' = None \<longrightarrow>
                  (\<exists>n. calculateOverallPriority sc = Inr n \<and> overall_priority_of v = Some (JNum n)))"
    by (elim exE) (rule that)
  with e c have "overall_priority_of v = Some (JNum (Fin 11))"
    by (auto simp: field_def p_def)
  with r nn
  show "\<exists>v. parseAIResponse ''{\"scores\":{\"business_impact\":10},\"priority_recommendation\":\"Low\"}'' = Inr v
          \<and> v \<noteq> JNull \<and> overall_priority_of v = Some (JNum (Fin 11))"
    unfolding resp_def by blast
qed

section \<open>Claim C5: the parser never throws\<close>

text \<open>
  C5. For every string, both variants of \<open>parseAIResponse\<close> return a value: whatever is
  thrown inside the \<^verbatim>\<open>try\<close> is caught and the result is then \<^verbatim>\<open>null\<close>, which carries
  nothing of the raw text. On the text "Sorry, I couldn't analyze this" both return
  \<^verbatim>\<open>null\<close>.
\<close>

theorem parseAIResponse_never_throws:
  "(\<exists>v. parseAIResponse text = Inr v) \<and> (\<exists>v. parseAIResponse_repairing text = Inr v)
   \<and> (\<forall>e. parse_body (\<lambda>jsonStr. jsonStr) text = Inl e \<longrightarrow> parseAIResponse text = Inr JNull)
   \<and> (\<forall>e. parse_body repair_braces text = Inl e \<longrightarrow> parseAIResponse_repairing text = Inr JNull)
   \<and> parseAIResponse ''Sorry, I couldn't analyze this'' = Inr JNull
   \<and> parseAIResponse_repairing ''Sorry, I couldn't analyze this'' = Inr JNull"
proof (intro conjI allI impI)
  show "\<exists>v. parseAIResponse text = Inr v" "\<exists>v. parseAIResponse_repairing text = Inr v"
    unfolding parseAIResponse_def parseAIResponse_repairing_def by (rule parser_returns)+
  show "parseAIResponse text = Inr JNull" if "parse_body (\<lambda>jsonStr. jsonStr) text = Inl e" for e
    unfolding parseAIResponse_def using that by (rule parser_throws)
  show "parseAIResponse_repairing text = Inr JNull" if "parse_body repair_braces text = Inl e" for e
    unfolding parseAIResponse_repairing_def using that by (rule parser_throws)
  show "parseAIResponse ''Sorry, I couldn't analyze this'' = Inr JNull" by code_simp
  show "parseAIResponse_repairing ''Sorry, I couldn't analyze this'' = Inr JNull" by code_simp
qed

text \<open>The theorem at a text that is no JSON: \<^verbatim>\<open>JSON.parse\<close> throws and the result is \<^verbatim>\<open>null\<close>.\<close>

theorem parseAIResponse_never_throws_witness:
  "parse_body repair_braces ''I cannot help with that.'' = Inl SyntaxError
   \<and> parseAIResponse_repairing ''I cannot help with that.'' = Inr JNull"
proof -
  have b: "parse_body repair_braces ''I cannot help with that.'' = Inl SyntaxError" by code_simp
  with parseAIResponse_never_throws[of "''I cannot help with that.''"] show ?thesis by blast
qed

lemma Put_defined: "field v k0 = Some y \<Longrightarrow> \<exists>v'. Put v k x = Inr v'"
  by (cases v) (simp_all add: field_def)


lemma parser_replaces_falsy:
  assumes "extracted_json repair text = Some parsed"
    and "field parsed ''scores'' = Some sc" and "truthy sc"
    and "field parsed ''priority_recommendation'' = Some r" and "truthy r"
    and "field sc ''overall_priority'' = Some ov" and "\<not> truthy ov"
  shows "(\<forall>n. calculateOverallPriority sc = Inr n \<longrightarrow>
           (\<exists>v sc'. parse_with repair text = Inr v \<and> overall_priority_of v = Some (JNum n)
              \<and> field v ''scores'' = Some sc'
              \<and> (\<forall>k. k \<noteq> ''overall_priority'' \<longrightarrow> field sc' k = field sc k)
              \<and> (\<forall>k. k \<noteq> ''scores'' \<longrightarrow> field v k = field parsed k)))
       \<and> (\<forall>e. calculateOverallPriority sc = Inl e \<longrightarrow> parse_with repair text = Inr JNull)"
proof -
  have nn: "parsed \<noteq> JNull" "sc \<noteq> JNull" using assms(2,6) by (auto simp: field_def)
  have vf: "validate_and_fill parsed =
              bnd (calculateOverallPriority sc) (\<lambda>n.
                bnd (Put sc ''overall_priority'' (JNum n)) (\<lambda>sc'. Put parsed ''scores'' sc'))"
    using assms nn by (simp add: validate_and_fill_def bnd_def Get_field)
  have pw: "parse_with repair text = try_catch (validate_and_fill parsed) (\<lambda>error. Inr JNull)"
    using assms(1) by (simp add: parse_with_def parse_body_extracted)
  show ?thesis
  proof (intro conjI allI impI)
    fix n assume n: "calculateOverallPriority sc = Inr n"
    obtain sc' where sc': "Put sc ''overall_priority'' (JNum n) = Inr sc'"
      using Put_defined[OF assms(6)] by blast
    obtain v where v: "Put parsed ''scores'' sc' = Inr v"
      using Put_defined[OF assms(2)] by blast
    have res: "parse_with repair text = Inr v"
      by (simp add: pw vf n sc' v bnd_def try_catch_def)
    have s: "field v ''scores'' = Some sc'" using field_Put[OF v] by simp
    have o: "overall_priority_of v = Some (JNum n)"
      using s field_Put[OF sc', of "''overall_priority''"] by (simp add: overall_priority_of_def)
    have k1: "\<forall>k. k \<noteq> ''overall_priority'' \<longrightarrow> field sc' k = field sc k"
      using field_Put[OF sc'] by simp
    have k2: "\<forall>k. k \<noteq> ''scores'' \<longrightarrow> field v k = field parsed k"
      using field_Put[OF v] by simp
    show "\<exists>v sc'. parse_with repair text = Inr v \<and> overall_priority_of v = Some (JNum n)
              \<and> field v ''scores'' = Some sc'
              \<and> (\<forall>k. k \<noteq> ''overall_priority'' \<longrightarrow> field sc' k = field sc k)
              \<and> (\<forall>k. k \<noteq> ''scores'' \<longrightarrow> field v k = field parsed k)"
      by (rule exI[of _ v], rule exI[of _ sc']) (use res o s k1 k2 in blast)
  next
    fix e assume "calculateOverallPriority sc = Inl e"
    then show "parse_with repair text = Inr JNull"
      by (simp add: pw vf bnd_def try_catch_def)
  qed
qed

section \<open>Claim C10: a falsy overall priority is recomputed\<close>

text \<open>
  C10, as amended. In both variants, when the parsed response passes the validation
  (truthy \<^verbatim>\<open>scores\<close> and \<^verbatim>\<open>priority_recommendation\<close>) and its
  \<^verbatim>\<open>scores.overall_priority\<close> is present but falsy (0, \<^verbatim>\<open>null\<close>, \<^verbatim>\<open>false\<close> or the empty
  string), the supplied value is discarded: where \<open>calculateOverallPriority\<close> returns a
  Number for the scores, the result carries that Number in its place, every other field
  being as parsed; where the computation throws, the result is \<^verbatim>\<open>null\<close>. The Number
  computed may itself be 0, so an overall priority of 0 can be returned.
\<close>

theorem parseAIResponse_recomputes_falsy_priority:
  assumes "field parsed ''scores'' = Some sc" and "truthy sc"
    and "field parsed ''priority_recommendation'' = Some r" and "truthy r"
    and "field sc ''overall_priority'' = Some ov" and "\<not> truthy ov"
  shows "(extracted_json (\<lambda>jsonStr. jsonStr) response = Some parsed \<longrightarrow>
          (\<forall>n. calculateOverallPriority sc = Inr n \<longrightarrow>
             (\<exists>v sc'. parseAIResponse response = Inr v \<and> overall_priority_of v = Some (JNum n)
                \<and> field v ''scores'' = Some sc'
                \<and> (\<forall>k. k \<noteq> ''overall_priority'' \<longrightarrow> field sc' k = field sc k)
                \<and> (\<forall>k. k \<noteq> ''scores'' \<longrightarrow> field v k = field parsed k)))
          \<and> (\<forall>e. calculateOverallPriority sc = Inl e \<longrightarrow> parseAIResponse response = Inr JNull))
       \<and> (extracted_json repair_braces response = Some parsed \<longrightarrow>
          (\<forall>n. calculateOverallPriority sc = Inr n \<longrightarrow>
             (\<exists>v sc'. parseAIResponse_repairing response = Inr v \<and> overall_priority_of v = Some (JNum n)
                \<and> field v ''scores'' = Some sc'
                \<and> (\<forall>k. k \<noteq> ''overall_priority'' \<longrightarrow> field sc' k = field sc k)
                \<and> (\<forall>k. k \<noteq> ''scores'' \<longrightarrow> field v k = field parsed k)))
          \<and> (\<forall>e. calculateOverallPriority sc = Inl e \<longrightarrow> parseAIResponse_repairing response = Inr JNull))"
  unfolding parseAIResponse_def parseAIResponse_repairing_def
  using parser_replaces_falsy[OF _ assms, of "\<lambda>jsonStr. jsonStr" response]
    parser_replaces_falsy[OF _ assms, of repair_braces response]
  by blast

text \<open>
  The theorem at a response whose backend-supplied overall priority is 0: the result
  carries 43, computed from the scores.
\<close>

theorem parseAIResponse_recomputes_falsy_priority_witness:
  "\<exists>v. parseAIResponse_repairing
          ''{\"scores\":{\"business_impact\":100,\"overall_priority\":0},\"priority_recommendation\":\"Low\"}''
        = Inr v \<and> overall_priority_of v = Some (JNum (Fin 43))"
proof -
  define resp where "resp = ''{\"scores\":{\"business_impact\":100,\"overall_priority\":0},\"priority_recommendation\":\"Low\"}''"
  define sc where "sc = JObj [(''business_impact'', JNum (Fin 100)), (''overall_priority'', JNum (Fin 0))]"
  define parsed where "parsed = JObj [(''scores'', sc), (''priority_recommendation'', JStr ''Low'')]"
  have e: "extracted_json repair_braces resp = Some parsed"
    unfolding resp_def parsed_def sc_def by code_simp
  have c: "calculateOverallPriority sc = Inr (Fin 43)" unfolding sc_def by code_simp
  have h: "field parsed ''scores'' = Some sc" "truthy sc"
    "field parsed ''priority_recommendation'' = Some (JStr ''Low'')" "truthy (JStr ''Low'')"
    "field sc ''overall_priority'' = Some (JNum (Fin 0))" "\<not> truthy (JNum (Fin 0))"
    by (simp_all add: field_def parsed_def sc_def)
  from parseAIResponse_recomputes_falsy_priority[OF h, of resp, THEN conjunct2, rule_format, OF e,
      THEN conjunct1, rule_format, OF c]
  have "\<exists>v. parseAIResponse_repairing resp = Inr v \<and> overall_priority_of v = Some (JNum (Fin 43))"
    by (elim exE conjE) (rule exI, rule conjI)
  then show ?thesis by (simp add: resp_def)
qed

text \<open>
  C10 as stated fails: an overall priority of 0 can survive. With an \<^verbatim>\<open>effort_score\<close> of 1
  as the only score the computed value is \<open>round (0.15) = 0\<close>, and the object comes back as
  it was parsed, 0 included. And where the computation throws, as on an \<^verbatim>\<open>effort_size\<close>
  that is an object whose \<^verbatim>\<open>toString\<close> is no function, nothing is put in the place of the
  0: the result is \<^verbatim>\<open>null\<close>.
\<close>

theorem parseAIResponse_recomputes_falsy_priority_counterexample:
  "parseAIResponse
     ''{\"scores\":{\"effort_score\":1,\"overall_priority\":0},\"priority_recommendation\":\"Low\"}''
     = Inr (JObj [(''scores'', JObj [(''effort_score'', JNum (Fin 1)), (''overall_priority'', JNum (Fin 0))]),
                  (''priority_recommendation'', JStr ''Low'')])
   \<and> parseAIResponse_repairing
     ''{\"scores\":{\"effort_score\":1,\"overall_priority\":0},\"priority_recommendation\":\"Low\"}''
     = Inr (JObj [(''scores'', JObj [(''effort_score'', JNum (Fin 1)), (''overall_priority'', JNum (Fin 0))]),
                  (''priority_recommendation'', JStr ''Low'')])
   \<and> calculateOverallPriority (JObj [(''effort_score'', JNum (Fin 1)), (''overall_priority'', JNum (Fin 0))])
     = Inr (Fin 0)
   \<and> parseAIResponse
     ''{\"scores\":{\"effort_size\":{\"toString\":1},\"overall_priority\":0},\"priority_recommendation\":\"Low\"}''
     = Inr JNull
   \<and> parseAIResponse_repairing
     ''{\"scores\":{\"effort_size\":{\"toString\":1},\"overall_priority\":0},\"priority_recommendation\":\"Low\"}''
     = Inr JNull
   \<and> calculateOverallPriority
        (JObj [(''effort_size'', JObj [(''toString'', JNum (Fin 1))]), (''overall_priority'', JNum (Fin 0))])
     = Inl TypeError"
  by (intro conjI; code_simp)











section \<open>Claim C4: the brace repair\<close>




lemma starts_with_append: "starts_with p (p @ y)"
  by (induction p) auto

lemma indexOf_includes: "indexOf pat s = Some n \<Longrightarrow> str_includes pat s"
  by (induction s arbitrary: n) (auto split: if_splits)

lemma split_from_at_separator:
  assumes "sep \<noteq> []"
  shows "split_from sep acc (sep @ y) = rev acc # split_from sep [] y"
proof -
  obtain f fs where f: "sep = f # fs" using assms by (cases sep) auto
  have "starts_with sep (f # (fs @ y))" using starts_with_append[of sep y] f by simp
  then show ?thesis using f by simp
qed

lemma split_from_before_first:
  assumes "indexOf sep (x @ rest) = Some (length x)" "sep \<noteq> []"
  shows "split_from sep acc (x @ rest) = split_from sep (rev x @ acc) rest"
  using assms
proof (induction x arbitrary: acc)
  case Nil
  then show ?case by simp
next
  case (Cons c x)
  from Cons.prems(1) have ns: "\<not> starts_with sep (c # x @ rest)" and ix: "indexOf sep (x @ rest) = Some (length x)"
    by (auto split: if_splits)
  show ?case using ns Cons.IH[OF ix Cons.prems(2), of "c # acc"] by simp
qed

lemma split_from_absent:
  assumes "\<not> str_includes sep z" "sep \<noteq> []"
  shows "split_from sep acc z = [rev acc @ z]"
  using assms by (induction z arbitrary: acc) auto

lemma str_split_first:
  assumes "indexOf sep (x @ sep @ y) = Some (length x)" "sep \<noteq> []"
  shows "str_split sep (x @ sep @ y) = x # str_split sep y"
  using split_from_before_first[OF assms, of "[]"] split_from_at_separator[OF assms(2), of "rev x" y]
  by (simp add: str_split_def)

lemma str_split_absent:
  assumes "\<not> str_includes sep z" "sep \<noteq> []"
  shows "str_split sep z = [z]"
  using split_from_absent[OF assms, of "[]"] by (simp add: str_split_def)

lemma extract_json_fenced:
  assumes "indexOf ''```json'' (before @ ''```json'' @ body @ ''```'' @ after) = Some (length before)"
    and "\<not> str_includes ''```json'' (body @ ''```'' @ after)"
    and "indexOf ''```'' (body @ ''```'' @ after) = Some (length body)"
  shows "extract_json (before @ ''```json'' @ body @ ''```'' @ after) = Inr body"
proof -
  let ?z = "body @ ''```'' @ after"
  have i: "str_includes ''```json'' (before @ ''```json'' @ ?z)"
    using indexOf_includes[OF assms(1)] .
  have s1: "str_split ''```json'' (before @ ''```json'' @ ?z) = [before, ?z]"
    using str_split_first[OF assms(1)] str_split_absent[OF assms(2)] by simp
  have s2: "str_split ''```'' ?z = body # str_split ''```'' after"
    using str_split_first[OF assms(3)] by simp
  show ?thesis using i s1 s2 by (simp add: extract_json_def fenced_body_def)
qed

lemma validate_and_fill_complete:
  assumes "field parsed ''scores'' = Some sc" "truthy sc"
    "truthy_opt (field parsed ''priority_recommendation'')" "truthy_opt (field sc ''overall_priority'')"
  shows "validate_and_fill parsed = Inr parsed"
proof -
  have "parsed \<noteq> JNull" "sc \<noteq> JNull" using assms(1,2) by (auto simp: field_def)
  then show ?thesis using assms by (simp add: validate_and_fill_def bnd_def Get_field)
qed

section \<open>Claim C6: the round trip through a fenced block\<close>

text \<open>
  C6, as amended. Let \<open>obj\<close> be an analysis object whose \<^verbatim>\<open>scores\<close>,
  \<^verbatim>\<open>priority_recommendation\<close> and \<^verbatim>\<open>scores.overall_priority\<close> are truthy, and \<open>body\<close> a
  JSON text of it (one that \<^verbatim>\<open>JSON.parse\<close> maps back to \<open>obj\<close>, white space around it
  allowed). Wrapped as \<open>before\<close>, \<^verbatim>\<open>```json\<close>, \<open>body\<close>, \<^verbatim>\<open>```\<close>, \<open>after\<close>, where the opening
  fence is the first and only \<^verbatim>\<open>```json\<close> of the response and the closing fence the first
  \<^verbatim>\<open>```\<close> after it (so \<open>body\<close> holds no fence), \<open>parseAIResponse\<close> returns \<open>obj\<close>.
\<close>

theorem parseAIResponse_round_trip:
  assumes "indexOf ''```json'' (before @ ''```json'' @ body @ ''```'' @ after) = Some (length before)"
    and "\<not> str_includes ''```json'' (body @ ''```'' @ after)"
    and "indexOf ''```'' (body @ ''```'' @ after) = Some (length body)"
    and "JSON_parse (trim body) = Some obj"
    and "field obj ''scores'' = Some sc" and "truthy sc"
    and "truthy_opt (field obj ''priority_recommendation'')"
    and "truthy_opt (field sc ''overall_priority'')"
  shows "parseAIResponse (before @ ''```json'' @ body @ ''```'' @ after) = Inr obj"
  using extract_json_fenced[OF assms(1,2,3)] assms(4) validate_and_fill_complete[OF assms(5,6,7,8)]
  by (simp add: parseAIResponse_def parse_with_def parse_body_def bnd_def try_catch_def)

text \<open>The theorem at the second mock response of the local tests, shortened.\<close>

theorem parseAIResponse_round_trip_witness:
  "parseAIResponse
     (''Analysis complete: '' @ ''```json'' @
      '' {\"scores\":{\"business_impact\":90,\"overall_priority\":82},\"priority_recommendation\":\"Fast Track\"} '' @
      ''```'' @ '' Done.'')
   = Inr (JObj [(''scores'', JObj [(''business_impact'', JNum (Fin 90)), (''overall_priority'', JNum (Fin 82))]),
                (''priority_recommendation'', JStr ''Fast Track'')])"
proof -
  define before where "before = ''Analysis complete: ''"
  define body where "body = '' {\"scores\":{\"business_impact\":90,\"overall_priority\":82},\"priority_recommendation\":\"Fast Track\"} ''"
  define after where "after = '' Done.''"
  define sc where "sc = JObj [(''business_impact'', JNum (Fin 90)), (''overall_priority'', JNum (Fin 82))]"
  define obj where "obj = JObj [(''scores'', sc), (''priority_recommendation'', JStr ''Fast Track'')]"
  have h1: "indexOf ''```json'' (before @ ''```json'' @ body @ ''```'' @ after) = Some (length before)"
    unfolding before_def body_def after_def by code_simp
  have h2: "\<not> str_includes ''```json'' (body @ ''```'' @ after)"
    unfolding body_def after_def by code_simp
  have h3: "indexOf ''```'' (body @ ''```'' @ after) = Some (length body)"
    unfolding body_def after_def by code_simp
  have h4: "JSON_parse (trim body) = Some obj"
    unfolding body_def obj_def sc_def by code_simp
  have h5: "field obj ''scores'' = Some sc" "truthy sc"
    "truthy_opt (field obj ''priority_recommendation'')" "truthy_opt (field sc ''overall_priority'')"
    by (simp_all add: obj_def sc_def field_def)
  show ?thesis
    using parseAIResponse_round_trip[OF h1 h2 h3 h4 h5]
    by (simp add: before_def body_def after_def obj_def sc_def)
qed

text \<open>
  C6 as stated fails. The serialization of a well-formed analysis whose summary mentions
  a fence is cut at that fence, and the result is \<^verbatim>\<open>null\<close>. An overall priority of 0 is
  replaced by the computed 8. Prose that shows a \<^verbatim>\<open>```json\<close> fence before the block makes
  the parser read the prose.
\<close>

theorem parseAIResponse_round_trip_counterexample:
  "JSON_parse ''{\"scores\":{\"overall_priority\":80},\"priority_recommendation\":\"Standard\",\"executive_summary\":\"Use ``` fences\"}''
     = Some (JObj [(''scores'', JObj [(''overall_priority'', JNum (Fin 80))]),
                   (''priority_recommendation'', JStr ''Standard''),
                   (''executive_summary'', JStr ''Use ``` fences'')])
   \<and> parseAIResponse (''```json'' @ [CHR 0x0A] @
        ''{\"scores\":{\"overall_priority\":80},\"priority_recommendation\":\"Standard\",\"executive_summary\":\"Use ``` fences\"}''
        @ [CHR 0x0A] @ ''```'') = Inr JNull
   \<and> JSON_parse ''{\"scores\":{\"overall_priority\":0},\"priority_recommendation\":\"Low\"}''
     = Some (JObj [(''scores'', JObj [(''overall_priority'', JNum (Fin 0))]), (''priority_recommendation'', JStr ''Low'')])
   \<and> parseAIResponse (''```json'' @ [CHR 0x0A] @
        ''{\"scores\":{\"overall_priority\":0},\"priority_recommendation\":\"Low\"}'' @ [CHR 0x0A] @ ''```'')
     = Inr (JObj [(''scores'', JObj [(''overall_priority'', JNum (Fin 8))]), (''priority_recommendation'', JStr ''Low'')])
   \<and> parseAIResponse (''I answer in a ```json block. '' @ ''```json'' @ [CHR 0x0A] @
        ''{\"scores\":{\"overall_priority\":80},\"priority_recommendation\":\"Standard\"}'' @ [CHR 0x0A] @ ''```'')
     = Inr JNull"
  by (intro conjI; code_simp)

section \<open>Properties of the effort estimation\<close>

lemma largest_nonneg: "0 \<le> largest xs"
  by (induction xs) auto

lemma score_buckets_picks:
  assumes "0 \<le> m"
  shows "\<exists>r'. score_buckets inds summ desc comps (m, e, r) =
           (max m (largest (map (\<lambda>(effort, ind). bucket_score ind summ desc comps) inds)),
            (if largest (map (\<lambda>(effort, ind). bucket_score ind summ desc comps) inds) \<le> m then e
             else fst (hd (filter (\<lambda>p. snd p = largest (map (\<lambda>(effort, ind). bucket_score ind summ desc comps) inds))
                            (map (\<lambda>(effort, ind). (effort, bucket_score ind summ desc comps)) inds)))),
            r')"
  using assms
proof (induction inds arbitrary: m e r)
  case Nil
  then show ?case by simp
next
  case (Cons a inds)
  obtain effort ind where a: "a = (effort, ind)" by (cases a)
  define s1 where "s1 = bucket_score ind summ desc comps"
  define L where "L = largest (map (\<lambda>(effort, ind). bucket_score ind summ desc comps) inds)"
  define scored where "scored = map (\<lambda>(effort, ind). (effort, bucket_score ind summ desc comps)) inds"
  have L0: "0 \<le> L" unfolding L_def by (rule largest_nonneg)
  show ?case
  proof (cases "s1 > m")
    case True
    then have "0 \<le> s1" using Cons.prems by simp
    from Cons.IH[OF this, of effort "reasoning_lines ind summ desc comps"]
    obtain r' where r': "score_buckets inds summ desc comps (s1, effort, reasoning_lines ind summ desc comps)
        = (max s1 L, (if L \<le> s1 then effort else fst (hd (filter (\<lambda>p. snd p = L) scored))), r')"
      unfolding L_def scored_def by blast
    have "score_buckets (a # inds) summ desc comps (m, e, r)
        = (max s1 L, (if L \<le> s1 then effort else fst (hd (filter (\<lambda>p. snd p = L) scored))), r')"
      using True r' by (simp add: a s1_def Let_def)
    then show ?thesis using True
      by (auto simp: a s1_def[symmetric] L_def[symmetric] scored_def[symmetric] max_def)
  next
    case False
    from Cons.IH[OF Cons.prems, of e r]
    obtain r' where r': "score_buckets inds summ desc comps (m, e, r)
        = (max m L, (if L \<le> m then e else fst (hd (filter (\<lambda>p. snd p = L) scored))), r')"
      unfolding L_def scored_def by blast
    have "score_buckets (a # inds) summ desc comps (m, e, r)
        = (max m L, (if L \<le> m then e else fst (hd (filter (\<lambda>p. snd p = L) scored))), r')"
      using False r' by (simp add: a s1_def Let_def)
    then show ?thesis using False
      by (auto simp: a s1_def[symmetric] L_def[symmetric] scored_def[symmetric] max_def)
  qed
qed

lemma score_buckets_highest:
  "\<exists>m r'. score_buckets effortIndicators summ desc comps (0, ''M'', []) =
      (m, highest_bucket (scored_buckets summ desc comps), r')"
proof -
  define f where "f = (\<lambda>(effort :: string, ind). bucket_score ind summ desc comps)"
  define g where "g = (\<lambda>(effort :: string, ind). (effort, bucket_score ind summ desc comps))"
  have eq: "map snd (map g effortIndicators) = map f effortIndicators"
    by (simp add: f_def g_def case_prod_unfold)
  from score_buckets_picks[of 0 effortIndicators summ desc comps "''M''" "[]"]
  obtain r' where "score_buckets effortIndicators summ desc comps (0, ''M'', []) =
           (max 0 (largest (map f effortIndicators)),
            (if largest (map f effortIndicators) \<le> 0 then ''M''
             else fst (hd (filter (\<lambda>p. snd p = largest (map f effortIndicators)) (map g effortIndicators)))),
            r')"
    unfolding f_def g_def by blast
  moreover have "highest_bucket (scored_buckets summ desc comps) =
      (if largest (map f effortIndicators) \<le> 0 then ''M''
             else fst (hd (filter (\<lambda>p. snd p = largest (map f effortIndicators)) (map g effortIndicators))))"
    unfolding highest_bucket_def scored_buckets_def g_def[symmetric] eq Let_def ..
  ultimately show ?thesis by simp
qed

lemma apply_overrides_overridden:
  "fst (apply_overrides summ (inferred, r)) = overridden summ inferred"
  by (simp add: apply_overrides_def overridden_def Let_def split: prod.splits)

lemma largest_mem: "largest xs \<noteq> 0 \<Longrightarrow> largest xs \<in> set xs"
  by (induction xs) (auto simp: max_def split: if_splits)

lemma highest_bucket_is_bucket:
  "highest_bucket (scored_buckets summ desc comps) \<in> fst ` set effortIndicators"
proof -
  define sc where "sc = scored_buckets summ desc comps"
  define m where "m = largest (map snd sc)"
  have keys: "fst ` set sc = fst ` set effortIndicators"
    by (force simp: sc_def scored_buckets_def)
  show ?thesis
  proof (cases "m \<le> 0")
    case True
    then show ?thesis
      by (simp add: highest_bucket_def sc_def[symmetric] m_def[symmetric] effortIndicators_def)
  next
    case False
    then have "m \<in> set (map snd sc)" unfolding m_def using largest_mem[of "map snd sc"] by auto
    then have ne: "filter (\<lambda>p. snd p = m) sc \<noteq> []" by (auto simp: filter_empty_conv)
    then have "hd (filter (\<lambda>p. snd p = m) sc) \<in> set sc"
      using hd_in_set[OF ne] by auto
    then have "fst (hd (filter (\<lambda>p. snd p = m) sc)) \<in> fst ` set effortIndicators"
      using keys by auto
    then show ?thesis using False
      by (simp add: highest_bucket_def sc_def[symmetric] m_def[symmetric] Let_def)
  qed
qed

lemma overridden_is_bucket:
  "inferred \<in> fst ` set effortIndicators \<Longrightarrow> overridden summ inferred \<in> fst ` set effortIndicators"
  by (auto simp: overridden_def effortIndicators_def)

lemma largest_ge: "x \<in> set xs \<Longrightarrow> x \<le> largest xs"
  by (induction xs) auto

lemma distinct_effort_keys: "distinct (map fst effortIndicators)"
  by (simp add: effortIndicators_def)

lemma highest_bucket_score:
  assumes "0 < largest (map snd (scored_buckets summ desc comps))"
  shows "map_of (scored_buckets summ desc comps) (highest_bucket (scored_buckets summ desc comps))
           = Some (largest (map snd (scored_buckets summ desc comps)))"
proof -
  define sc where "sc = scored_buckets summ desc comps"
  define m where "m = largest (map snd sc)"
  have d: "distinct (map fst sc)"
    using distinct_effort_keys by (simp add: sc_def scored_buckets_def case_prod_unfold comp_def)
  have "m \<in> set (map snd sc)" using assms largest_mem[of "map snd sc"] by (simp add: m_def sc_def)
  then have ne: "filter (\<lambda>p. snd p = m) sc \<noteq> []" by (auto simp: filter_empty_conv)
  define h where "h = hd (filter (\<lambda>p. snd p = m) sc)"
  have "h \<in> set (filter (\<lambda>p. snd p = m) sc)" unfolding h_def using hd_in_set[OF ne] .
  then have h: "h \<in> set sc" "snd h = m" by auto
  then have "(fst h, m) \<in> set sc" by (cases h) auto
  then have "map_of sc (fst h) = Some m" using d by (rule map_of_is_SomeI[rotated])
  then show ?thesis using assms
    by (simp add: highest_bucket_def sc_def[symmetric] m_def[symmetric] h_def Let_def)
qed

lemma bucket_score_counts:
  assumes "distinct (keywords' ind)" "distinct (patterns ind)"
  shows "bucket_score ind summ desc comps
     = 10 * int (card {k \<in> set (keywords' ind). str_includes k summ \<or> str_includes k desc})
       + 15 * int (card {p \<in> set (patterns ind). regex_test p summ \<or> regex_test p desc})
       + 5 * int (length (filter (\<lambda>comp. \<exists>k \<in> set (keywords' ind). str_includes k comp) comps))"
proof -
  have "length (keywordMatches ind summ desc)
          = card {k \<in> set (keywords' ind). str_includes k summ \<or> str_includes k desc}"
    unfolding keywordMatches_def using assms(1) by (simp add: distinct_length_filter Int_def conj_commute)
  moreover have "length (patternMatches ind summ desc)
          = card {p \<in> set (patterns ind). regex_test p summ \<or> regex_test p desc}"
    unfolding patternMatches_def using assms(2) by (simp add: distinct_length_filter Int_def conj_commute)
  ultimately show ?thesis by (simp add: bucket_score_def componentMatches_def)
qed

lemma effortIndicators_distinct:
  "(effort, ind) \<in> set effortIndicators \<Longrightarrow> distinct (keywords' ind) \<and> distinct (patterns ind)"
  by (auto simp: effortIndicators_def)

section \<open>Claim C9: effort estimation\<close>

text \<open>
  C9. For every ticket \<open>estimateEffort\<close> returns an estimate. Each of the five buckets
  scores 10 for every keyword of it found in the lower-case title or description, 15 for
  every pattern of it that matches one of them, and 5 for every component whose name holds
  one of its keywords. The inferred bucket is the highest-scoring one (the first of them
  on a tie), \<^verbatim>\<open>M\<close> when no bucket scores above zero. The override rules on the title then
  replace it: security or compliance gives \<^verbatim>\<open>S\<close>; otherwise bug or fix with minor or small
  gives \<^verbatim>\<open>XS\<close>, and with critical or major gives \<^verbatim>\<open>M\<close>. The ticket titled "Add dark
  mode toggle to user preferences" gets \<^verbatim>\<open>XS\<close>.
\<close>

theorem estimateEffort_scores_and_overrides:
  "(\<exists>est lg'. estimateEffort issue lg = Inr (est, lg')
       \<and> effort_size est =
           overridden (toLowerCase (text_field issue summary))
             (highest_bucket (scored_buckets (toLowerCase (text_field issue summary))
                (toLowerCase (text_field issue description))
                (map toLowerCase (list_field issue components)))))
   \<and> (\<forall>(effort, ind) \<in> set effortIndicators.
         bucket_score ind summ desc comps
           = 10 * int (card {k \<in> set (keywords' ind). str_includes k summ \<or> str_includes k desc})
             + 15 * int (card {p \<in> set (patterns ind). regex_test p summ \<or> regex_test p desc})
             + 5 * int (length (filter (\<lambda>comp. \<exists>k \<in> set (keywords' ind). str_includes k comp) comps)))
   \<and> (\<forall>p \<in> set (scored_buckets summ desc comps). snd p \<le> largest (map snd (scored_buckets summ desc comps)))
   \<and> (0 < largest (map snd (scored_buckets summ desc comps)) \<longrightarrow>
         map_of (scored_buckets summ desc comps) (highest_bucket (scored_buckets summ desc comps))
           = Some (largest (map snd (scored_buckets summ desc comps))))
   \<and> (largest (map snd (scored_buckets summ desc comps)) \<le> 0 \<longrightarrow>
         highest_bucket (scored_buckets summ desc comps) = ''M'')
   \<and> (\<exists>est lg'. estimateEffort
         \<lparr>key = Some ''FR-1'',
          fields' = Some \<lparr>summary = Some ''Add dark mode toggle to user preferences'',
                          description = None, components = None, labels = None\<rparr>\<rparr> [] = Inr (est, lg')
        \<and> effort_size est = ''XS'')"
proof (intro conjI)
  define s where "s = toLowerCase (text_field issue summary)"
  define d where "d = toLowerCase (text_field issue description)"
  define c where "c = map toLowerCase (list_field issue components)"
  obtain m r' where sb: "score_buckets effortIndicators s d c (0, ''M'', []) =
      (m, highest_bucket (scored_buckets s d c), r')"
    using score_buckets_highest by blast
  define fin where "fin = overridden s (highest_bucket (scored_buckets s d c))"
  obtain r1 where ao: "apply_overrides s (highest_bucket (scored_buckets s d c), r') = (fin, r1)"
    using apply_overrides_overridden[of s "highest_bucket (scored_buckets s d c)" r']
    by (cases "apply_overrides s (highest_bucket (scored_buckets s d c), r')") (simp add: fin_def)
  have "fin \<in> fst ` set effortIndicators"
    unfolding fin_def by (rule overridden_is_bucket[OF highest_bucket_is_bucket])
  then obtain ind where ind: "map_of effortIndicators fin = Some ind"
    by (metis domD dom_map_of_conv_image_fst)
  have "estimateEffort issue lg =
      Inr (\<lparr>effort_size = fin, effort_score = score ind, reasoning = join ''; '' r1,
            effort_description = size_description ind\<rparr>, logAction ''EFFORT_ESTIMATION'' lg)"
    by (simp add: estimateEffort_def Let_def s_def[symmetric] d_def[symmetric] c_def[symmetric] sb ao ind)
  then show "\<exists>est lg'. estimateEffort issue lg = Inr (est, lg')
       \<and> effort_size est =
           overridden (toLowerCase (text_field issue summary))
             (highest_bucket (scored_buckets (toLowerCase (text_field issue summary))
                (toLowerCase (text_field issue description))
                (map toLowerCase (list_field issue components))))"
    by (simp add: fin_def s_def d_def c_def)
next
  show "\<forall>(effort, ind) \<in> set effortIndicators.
         bucket_score ind summ desc comps
           = 10 * int (card {k \<in> set (keywords' ind). str_includes k summ \<or> str_includes k desc})
             + 15 * int (card {p \<in> set (patterns ind). regex_test p summ \<or> regex_test p desc})
             + 5 * int (length (filter (\<lambda>comp. \<exists>k \<in> set (keywords' ind). str_includes k comp) comps))"
    using effortIndicators_distinct bucket_score_counts by blast
next
  show "\<forall>p \<in> set (scored_buckets summ desc comps). snd p \<le> largest (map snd (scored_buckets summ desc comps))"
    using largest_ge[of _ "map snd (scored_buckets summ desc comps)"] by auto
next
  show "0 < largest (map snd (scored_buckets summ desc comps)) \<longrightarrow>
         map_of (scored_buckets summ desc comps) (highest_bucket (scored_buckets summ desc comps))
           = Some (largest (map snd (scored_buckets summ desc comps)))"
    using highest_bucket_score by blast
next
  show "largest (map snd (scored_buckets summ desc comps)) \<le> 0 \<longrightarrow>
         highest_bucket (scored_buckets summ desc comps) = ''M''"
    by (simp add: highest_bucket_def)
next
  have "estimateEffort
         \<lparr>key = Some ''FR-1'',
          fields' = Some \<lparr>summary = Some ''Add dark mode toggle to user preferences'',
                          description = None, components = None, labels = None\<rparr>\<rparr> []
        = Inr (\<lparr>effort_size = ''XS'', effort_score = 100, reasoning = ''Components: '',
                effort_description = ''1-2 weeks: Simple config/UI changes, minor bug fixes''\<rparr>,
               [''EFFORT_ESTIMATION''])"
    by code_simp
  then show "\<exists>est lg'. estimateEffort
         \<lparr>key = Some ''FR-1'',
          fields' = Some \<lparr>summary = Some ''Add dark mode toggle to user preferences'',
                          description = None, components = None, labels = None\<rparr>\<rparr> [] = Inr (est, lg')
        \<and> effort_size est = ''XS''"
    by simp
qed

text \<open>
  The theorem at a ticket about a critical bug in a dashboard report: the
  \<^verbatim>\<open>M\<close> bucket scores 20, the highest, and the override for a critical fix keeps \<^verbatim>\<open>M\<close>.
\<close>

theorem estimateEffort_scores_and_overrides_witness:
  "\<exists>est lg'. estimateEffort
      \<lparr>key = Some ''BUG-7'',
       fields' = Some \<lparr>summary = Some ''Fix critical error in dashboard report'',
                       description = None, components = None, labels = None\<rparr>\<rparr> [] = Inr (est, lg')
     \<and> effort_size est = ''M''"
proof -
  define issue where "issue = \<lparr>key = Some ''BUG-7'',
       fields' = Some \<lparr>summary = Some ''Fix critical error in dashboard report'',
                       description = None, components = None, labels = None\<rparr>\<rparr>"
  have o: "overridden (toLowerCase (text_field issue summary))
             (highest_bucket (scored_buckets (toLowerCase (text_field issue summary))
                (toLowerCase (text_field issue description))
                (map toLowerCase (list_field issue components)))) = ''M''"
    unfolding issue_def by code_simp
  have l: "0 < largest (map snd (scored_buckets ''fix critical error in dashboard report'' [] []))"
    by code_simp
  note T = estimateEffort_scores_and_overrides[of issue "[]" "''fix critical error in dashboard report''" "[]" "[]"]
  from T[THEN conjunct1] o have "\<exists>est lg'. estimateEffort issue [] = Inr (est, lg') \<and> effort_size est = ''M''"
    by simp
  moreover from T[THEN conjunct2, THEN conjunct2, THEN conjunct2, THEN conjunct1] l
  have "map_of (scored_buckets ''fix critical error in dashboard report'' [] [])
          (highest_bucket (scored_buckets ''fix critical error in dashboard report'' [] []))
        = Some (largest (map snd (scored_buckets ''fix critical error in dashboard report'' [] [])))"
    by simp
  ultimately show ?thesis by (simp add: issue_def)
qed

section \<open>Properties of the dispatches\<close>

lemma estimateEffort_returns:
  "\<exists>est. estimateEffort issue lg = Inr (est, logAction ''EFFORT_ESTIMATION'' lg)"
proof -
  define s where "s = toLowerCase (text_field issue summary)"
  define d where "d = toLowerCase (text_field issue description)"
  define c where "c = map toLowerCase (list_field issue components)"
  obtain m r' where sb: "score_buckets effortIndicators s d c (0, ''M'', []) =
      (m, highest_bucket (scored_buckets s d c), r')"
    using score_buckets_highest by blast
  define fin where "fin = overridden s (highest_bucket (scored_buckets s d c))"
  obtain r1 where ao: "apply_overrides s (highest_bucket (scored_buckets s d c), r') = (fin, r1)"
    using apply_overrides_overridden[of s "highest_bucket (scored_buckets s d c)" r']
    by (cases "apply_overrides s (highest_bucket (scored_buckets s d c), r')") (simp add: fin_def)
  have "fin \<in> fst ` set effortIndicators"
    unfolding fin_def by (rule overridden_is_bucket[OF highest_bucket_is_bucket])
  then obtain ind where ind: "map_of effortIndicators fin = Some ind"
    by (metis domD dom_map_of_conv_image_fst)
  show ?thesis
    by (simp add: estimateEffort_def Let_def s_def[symmetric] d_def[symmetric] c_def[symmetric] sb ao ind)
qed

lemma context_present: "context' (getProductContext issue) \<noteq> None"
  by (simp add: getProductContext_def Let_def split: prod.splits)

lemma parse_repairing_returns: "\<exists>v. parseAIResponse_repairing text = Inr v"
  unfolding parseAIResponse_repairing_def by (rule parser_returns)

text \<open>The priority dispatch in closed form: who is called, and what comes back.\<close>

lemma analyzePriority_calls:
  "calls (snd (analyzePriority env issue tr)) =
     calls tr @ (if genAI env
                 then Gemini # (if fails_priority (priority_gemini env) \<and> anthropic env then [Claude] else [])
                 else (if anthropic env then [Claude] else []))"
proof -
  obtain est where e: "estimateEffort issue (logged tr) = Inr (est, logAction ''EFFORT_ESTIMATION'' (logged tr))"
    using estimateEffort_returns by blast
  show ?thesis
    using context_present[of issue] parse_repairing_returns
    by (auto simp: analyzePriority_def e Let_def log_to_def call_def fails_priority_def valid_analysis_def
             split: sum.splits)
qed

lemma analyzePriority_both_failed:
  assumes "genAI env \<longrightarrow> fails_priority (priority_gemini env)"
    and "anthropic env \<longrightarrow> fails_priority (priority_claude env)"
  shows "analysis (fst (analyzePriority env issue tr)) = JNull
       \<and> modelUsed (fst (analyzePriority env issue tr)) = ''None - Both models failed''
       \<and> ''PRIORITY_ANALYSIS_BOTH_FAILED'' \<in> set (logged (snd (analyzePriority env issue tr)))"
proof -
  obtain est where e: "estimateEffort issue (logged tr) = Inr (est, logAction ''EFFORT_ESTIMATION'' (logged tr))"
    using estimateEffort_returns by blast
  show ?thesis
    using context_present[of issue] parse_repairing_returns assms
    by (auto simp: analyzePriority_def e Let_def log_to_def call_def logAction_def fails_priority_def
          valid_analysis_def split: sum.splits)
qed

lemma classifyTheme_calls:
  "calls (snd (classifyTheme env issue tr)) =
     calls tr @ (if genAI env
                 then Gemini # (if throws (theme_gemini env) \<and> anthropic env then [Claude] else [])
                 else (if anthropic env then [Claude] else []))"
  by (auto simp: classifyTheme_def Let_def log_to_def call_def throws_def split: sum.splits)

lemma classifyTheme_both_failed:
  assumes "genAI env \<longrightarrow> throws (theme_gemini env)"
    and "anthropic env \<longrightarrow> throws (theme_claude env)"
  shows "theme (fst (classifyTheme env issue tr)) = ''THEME NOT IDENTIFIED''
       \<and> theme_modelUsed (fst (classifyTheme env issue tr)) = ''None - Both models failed''
       \<and> ''THEME_CLASSIFICATION_BOTH_FAILED'' \<in> set (logged (snd (classifyTheme env issue tr)))"
  using assms
  by (auto simp: classifyTheme_def Let_def log_to_def call_def logAction_def throws_def split: sum.splits)

section \<open>Claim C7: one fallback, no retry\<close>

text \<open>
  C7, as amended. In the priority dispatch, when the primary backend is called and its
  call throws or its response parses to no analysis with scores, the secondary backend is
  called exactly once if its client is configured, and not at all if it is not. In the
  theme dispatch the same holds when the primary call throws. No dispatch calls a backend
  twice. When every configured backend fails, the priority dispatch returns a
  \<^verbatim>\<open>null\<close> analysis and the theme dispatch the theme "THEME NOT IDENTIFIED", both with
  the model "None - Both models failed", and the dispatch logs its
  \<^verbatim>\<open>BOTH_FAILED\<close> action.
\<close>

theorem dispatch_single_fallback:
  "(genAI env \<and> fails_priority (priority_gemini env) \<longrightarrow>
      attempts Claude tr (snd (analyzePriority env issue tr)) = (if anthropic env then 1 else 0))
   \<and> attempts Gemini tr (snd (analyzePriority env issue tr)) \<le> 1
   \<and> attempts Claude tr (snd (analyzePriority env issue tr)) \<le> 1
   \<and> ((genAI env \<longrightarrow> fails_priority (priority_gemini env))
        \<and> (anthropic env \<longrightarrow> fails_priority (priority_claude env)) \<longrightarrow>
        analysis (fst (analyzePriority env issue tr)) = JNull
        \<and> modelUsed (fst (analyzePriority env issue tr)) = ''None - Both models failed''
        \<and> ''PRIORITY_ANALYSIS_BOTH_FAILED'' \<in> set (logged (snd (analyzePriority env issue tr))))
   \<and> (genAI env \<and> throws (theme_gemini env) \<longrightarrow>
        attempts Claude tr (snd (classifyTheme env issue tr)) = (if anthropic env then 1 else 0))
   \<and> attempts Gemini tr (snd (classifyTheme env issue tr)) \<le> 1
   \<and> attempts Claude tr (snd (classifyTheme env issue tr)) \<le> 1
   \<and> ((genAI env \<longrightarrow> throws (theme_gemini env))
        \<and> (anthropic env \<longrightarrow> throws (theme_claude env)) \<longrightarrow>
        theme (fst (classifyTheme env issue tr)) = ''THEME NOT IDENTIFIED''
        \<and> theme_modelUsed (fst (classifyTheme env issue tr)) = ''None - Both models failed''
        \<and> ''THEME_CLASSIFICATION_BOTH_FAILED'' \<in> set (logged (snd (classifyTheme env issue tr))))"
proof (intro conjI impI)
  show "attempts Claude tr (snd (analyzePriority env issue tr)) = (if anthropic env then 1 else 0)"
    if "genAI env \<and> fails_priority (priority_gemini env)"
    using that by (simp add: attempts_def analyzePriority_calls)
  show "attempts Gemini tr (snd (analyzePriority env issue tr)) \<le> 1"
    by (simp add: attempts_def analyzePriority_calls)
  show "attempts Claude tr (snd (analyzePriority env issue tr)) \<le> 1"
    by (simp add: attempts_def analyzePriority_calls)
  show "analysis (fst (analyzePriority env issue tr)) = JNull"
    "modelUsed (fst (analyzePriority env issue tr)) = ''None - Both models failed''"
    "''PRIORITY_ANALYSIS_BOTH_FAILED'' \<in> set (logged (snd (analyzePriority env issue tr)))"
    if "(genAI env \<longrightarrow> fails_priority (priority_gemini env))
        \<and> (anthropic env \<longrightarrow> fails_priority (priority_claude env))"
    using that analyzePriority_both_failed[of env issue tr] by blast+
  show "attempts Claude tr (snd (classifyTheme env issue tr)) = (if anthropic env then 1 else 0)"
    if "genAI env \<and> throws (theme_gemini env)"
    using that by (simp add: attempts_def classifyTheme_calls)
  show "attempts Gemini tr (snd (classifyTheme env issue tr)) \<le> 1"
    by (simp add: attempts_def classifyTheme_calls)
  show "attempts Claude tr (snd (classifyTheme env issue tr)) \<le> 1"
    by (simp add: attempts_def classifyTheme_calls)
  show "theme (fst (classifyTheme env issue tr)) = ''THEME NOT IDENTIFIED''"
    "theme_modelUsed (fst (classifyTheme env issue tr)) = ''None - Both models failed''"
    "''THEME_CLASSIFICATION_BOTH_FAILED'' \<in> set (logged (snd (classifyTheme env issue tr)))"
    if "(genAI env \<longrightarrow> throws (theme_gemini env)) \<and> (anthropic env \<longrightarrow> throws (theme_claude env))"
    using that classifyTheme_both_failed[of env issue tr] by blast+
qed

text \<open>
  The theorem where both clients are configured, Gemini's calls throw and Claude answers
  with prose: Claude is called once by each dispatch, and the priority dispatch ends with
  a \<^verbatim>\<open>null\<close> analysis.
\<close>

theorem dispatch_single_fallback_witness:
  "attempts Claude \<lparr>logged = [], calls = []\<rparr>
     (snd (analyzePriority
        \<lparr>genAI = True, anthropic = True,
         theme_gemini = Inl (Error ''fetch failed''), theme_claude = Inl (Error ''overloaded''),
         priority_gemini = Inl (Error ''fetch failed''), priority_claude = Inr ''I cannot rate this.'',
         themeTime = 120, priorityTime = 340, processingTime = 470, requestId = ''req-1''\<rparr>
        \<lparr>key = Some ''FR-1'', fields' = None\<rparr> \<lparr>logged = [], calls = []\<rparr>)) = 1
   \<and> analysis (fst (analyzePriority
        \<lparr>genAI = True, anthropic = True,
         theme_gemini = Inl (Error ''fetch failed''), theme_claude = Inl (Error ''overloaded''),
         priority_gemini = Inl (Error ''fetch failed''), priority_claude = Inr ''I cannot rate this.'',
         themeTime = 120, priorityTime = 340, processingTime = 470, requestId = ''req-1''\<rparr>
        \<lparr>key = Some ''FR-1'', fields' = None\<rparr> \<lparr>logged = [], calls = []\<rparr>)) = JNull
   \<and> theme (fst (classifyTheme
        \<lparr>genAI = True, anthropic = True,
         theme_gemini = Inl (Error ''fetch failed''), theme_claude = Inl (Error ''overloaded''),
         priority_gemini = Inl (Error ''fetch failed''), priority_claude = Inr ''I cannot rate this.'',
         themeTime = 120, priorityTime = 340, processingTime = 470, requestId = ''req-1''\<rparr>
        \<lparr>key = Some ''FR-1'', fields' = None\<rparr> \<lparr>logged = [], calls = []\<rparr>)) = ''THEME NOT IDENTIFIED''"
proof -
  define env where "env = \<lparr>genAI = True, anthropic = True,
         theme_gemini = Inl (Error ''fetch failed''), theme_claude = Inl (Error ''overloaded''),
         priority_gemini = Inl (Error ''fetch failed''), priority_claude = Inr ''I cannot rate this.'',
         themeTime = 120, priorityTime = 340, processingTime = 470, requestId = ''req-1''\<rparr>"
  define issue where "issue = \<lparr>key = Some ''FR-1'', fields' = (None :: issue_fields option)\<rparr>"
  define tr where "tr = \<lparr>logged = ([] :: string list), calls = ([] :: provider list)\<rparr>"
  have v: "\<not> valid_analysis ''I cannot rate this.''"
    unfolding valid_analysis_def by code_simp
  have h: "genAI env" "anthropic env" "fails_priority (priority_gemini env)"
    "fails_priority (priority_claude env)" "throws (theme_gemini env)" "throws (theme_claude env)"
    using v by (simp_all add: env_def fails_priority_def throws_def)
  from dispatch_single_fallback[of env tr issue] h
  have "attempts Claude tr (snd (analyzePriority env issue tr)) = 1
      \<and> analysis (fst (analyzePriority env issue tr)) = JNull
      \<and> theme (fst (classifyTheme env issue tr)) = ''THEME NOT IDENTIFIED''"
    by simp
  then show ?thesis by (simp add: env_def issue_def tr_def)
qed

text \<open>
  C7 as stated fails where the Claude client is not configured (no API key): Gemini's
  call throws, and the secondary backend is attempted not once but never.
\<close>

theorem dispatch_single_fallback_counterexample:
  "throws (Inl (Error ''fetch failed''))
   \<and> calls (snd (analyzePriority
        \<lparr>genAI = True, anthropic = False,
         theme_gemini = Inl (Error ''fetch failed''), theme_claude = Inl (Error ''no client''),
         priority_gemini = Inl (Error ''fetch failed''), priority_claude = Inl (Error ''no client''),
         themeTime = 120, priorityTime = 340, processingTime = 470, requestId = ''req-1''\<rparr>
        \<lparr>key = Some ''FR-1'', fields' = None\<rparr> \<lparr>logged = [], calls = []\<rparr>)) = [Gemini]
   \<and> calls (snd (classifyTheme
        \<lparr>genAI = True, anthropic = False,
         theme_gemini = Inl (Error ''fetch failed''), theme_claude = Inl (Error ''no client''),
         priority_gemini = Inl (Error ''fetch failed''), priority_claude = Inl (Error ''no client''),
         themeTime = 120, priorityTime = 340, processingTime = 470, requestId = ''req-1''\<rparr>
        \<lparr>key = Some ''FR-1'', fields' = None\<rparr> \<lparr>logged = [], calls = []\<rparr>)) = [Gemini]"
  by (intro conjI; code_simp)

section \<open>Properties of the orchestrator and the handler\<close>

lemma analyzePriority_analysis:
  "analysis (fst (analyzePriority env issue tr)) = settled_analysis env"
proof -
  obtain est where e: "estimateEffort issue (logged tr) = Inr (est, logAction ''EFFORT_ESTIMATION'' (logged tr))"
    using estimateEffort_returns by blast
  show ?thesis
    using context_present[of issue] parse_repairing_returns
    by (auto simp: analyzePriority_def e Let_def settled_analysis_def parsed_of_def fails_priority_def
          valid_analysis_def split: sum.splits)
qed

lemma settled_analysis_cases:
  "settled_analysis env = JNull
   \<or> (has_scores (settled_analysis env)
      \<and> (\<exists>text. (priority_gemini env = Inr text \<or> priority_claude env = Inr text)
            \<and> parseAIResponse_repairing text = Inr (settled_analysis env)))"
  by (auto simp: settled_analysis_def parsed_of_def fails_priority_def valid_analysis_def
        split: sum.splits)

lemma has_scores_null: "\<not> has_scores JNull"
  by (simp add: has_scores_def)

lemma processTicket_analysis:
  "res_analysis (fst (processTicketWithFullTriage env issueKey issueData tr)) = settled_analysis env"
  using settled_analysis_cases[of env]
  by (auto simp: processTicketWithFullTriage_def Let_def case_prod_beta analyzePriority_analysis
        has_scores_null)

lemma settled_analysis_priority:
  assumes "settled_analysis env \<noteq> JNull"
  shows "\<exists>ov. overall_priority_of (settled_analysis env) = Some ov \<and> ov \<noteq> JNull"
proof -
  from settled_analysis_cases[of env] assms obtain resp where
    t: "parseAIResponse_repairing resp = Inr (settled_analysis env)" by blast
  then obtain parsed where p: "validate_and_fill parsed = Inr (settled_analysis env)"
    using parser_result[of repair_braces resp "settled_analysis env"] assms
    by (auto simp: parseAIResponse_repairing_def)
  from validate_and_fill_result[OF p assms] obtain sc where
    sc: "field parsed ''scores'' = Some sc"
    and d: "(truthy_opt (field sc ''overall_priority'') \<and> settled_analysis env = parsed)
              \<or> (\<exists>n sc'. Put sc ''overall_priority'' (JNum n) = Inr sc'
                        \<and> Put parsed ''scores'' sc' = Inr (settled_analysis env))"
    by blast
  from d show ?thesis
  proof
    assume a: "truthy_opt (field sc ''overall_priority'') \<and> settled_analysis env = parsed"
    then obtain ov where "field sc ''overall_priority'' = Some ov" "truthy ov"
      by (cases "field sc ''overall_priority''") auto
    with a sc show ?thesis by (auto simp: overall_priority_of_def)
  next
    assume "\<exists>n sc'. Put sc ''overall_priority'' (JNum n) = Inr sc'
                        \<and> Put parsed ''scores'' sc' = Inr (settled_analysis env)"
    then obtain n sc' where n: "Put sc ''overall_priority'' (JNum n) = Inr sc'"
      "Put parsed ''scores'' sc' = Inr (settled_analysis env)" by blast
    have "overall_priority_of (settled_analysis env) = Some (JNum n)"
      using field_Put[OF n(2), of "''scores''"] field_Put[OF n(1), of "''overall_priority''"]
      by (simp add: overall_priority_of_def)
    then show ?thesis by simp
  qed
qed

lemma generateSimilarityGroup_returns:
  "summarisable an \<Longrightarrow> \<exists>g. generateSimilarityGroup an thm = Inr g"
  by (auto simp: generateSimilarityGroup_def summarisable_def Let_def split: option.splits jsval.splits)

lemma generateSimilarityGroup_throws:
  "\<not> summarisable an \<Longrightarrow> generateSimilarityGroup an thm = Inl TypeError"
  by (auto simp: generateSimilarityGroup_def summarisable_def Let_def split: option.splits jsval.splits)

lemma success_body_absent:
  assumes "res_analysis result = JNull"
  shows "\<exists>ps. success_body env issueKey issueData result = Inr (JObj ps)
           \<and> map_of ps ''recommendation'' = Some (JStr ''On Hold'')
           \<and> map_of ps ''confidence'' = Some (JNum (Fin 0))
           \<and> map_of ps ''importance'' = Some (JNum (Fin 0))"
  using assms
  by (simp add: success_body_def Let_def generateSimilarityGroup_def field_def bnd_def chain_def
        or_else_def num_def)

lemma lit_three_quarters: "lit (3 / 4) = Fin (3 / 4)"
  by code_simp

lemma success_body_present:
  assumes "res_analysis result = an" "has_scores an" "summarisable an"
    "overall_priority_of an = Some ov" "ov \<noteq> JNull"
  shows "\<exists>ps. success_body env issueKey issueData result = Inr (JObj ps)
           \<and> map_of ps ''confidence'' = Some (JNum (Fin (3 / 4)))
           \<and> map_of ps ''importance'' = Some ov"
proof -
  have nn: "an \<noteq> JNull" "truthy an" using assms(2) by (auto simp: has_scores_def)
  obtain g where g: "generateSimilarityGroup an (res_theme result) = Inr g"
    using generateSimilarityGroup_returns[OF assms(3)] by blast
  have imp: "(case chain (chain (Some an) ''scores'') ''overall_priority'' of
                None \<Rightarrow> num 0 | Some JNull \<Rightarrow> num 0 | Some x \<Rightarrow> x) = ov"
    using assms(4,5) by (cases ov) (auto simp: chain_def overall_priority_of_def split: option.splits)
  show ?thesis
    using nn g imp
    by (simp add: success_body_def Let_def assms(1) bnd_def lit_three_quarters)
qed

lemma success_body_throws:
  assumes "res_analysis result = an" "\<not> summarisable an"
  shows "success_body env issueKey issueData result = Inl TypeError"
  using assms generateSimilarityGroup_throws[OF assms(2)]
  by (simp add: success_body_def Let_def bnd_def)

text \<open>What the client reads of an object's members.\<close>

lemma map_of_serialized:
  "map_of (map (map_prod id serialized) ps) k = map_option serialized (map_of ps k)"
  by (induction ps) auto

lemma field_serialized:
  "field (serialized (JObj ps)) k = map_option serialized (map_of ps k)"
  by (simp add: field_def map_of_serialized)

lemma is_number_serialized: "is_number (serialized ov) = (\<exists>x. ov = JNum (Fin x))"
  by (cases ov) (auto simp: is_number_def split: jsnum.splits)

lemma handler_admitted:
  assumes "req_method req = ''POST''"
    and "fst (checkRateLimit (now req) (clientIP req) requestCounts)"
    and "req_body req = Some data" and "body_issue data = Some issue"
    and "key issue = Some k" and "k \<noteq> []"
  shows "\<exists>result. res_analysis result = settled_analysis env
           \<and> fst (handler env requestCounts req) =
               (case success_body env k (Some issue) result of
                  Inr response_body \<Rightarrow> json 200 response_body
                | Inl e \<Rightarrow> json 500 (JObj [(''status'', JStr ''error''), (''requestId'', JStr (requestId env)),
                                            (''error'', JStr (error_text e))]))"
proof -
  define tr where "tr = log_to ''WEBHOOK_PARSED'' (log_to ''WEBHOOK_RECEIVED'' \<lparr>logged = [], calls = []\<rparr>)"
  define result where "result = fst (processTicketWithFullTriage env k (Some issue) tr)"
  have r: "res_analysis result = settled_analysis env"
    unfolding result_def by (rule processTicket_analysis)
  have "fst (handler env requestCounts req) =
               (case success_body env k (Some issue) result of
                  Inr response_body \<Rightarrow> json 200 response_body
                | Inl e \<Rightarrow> json 500 (JObj [(''status'', JStr ''error''), (''requestId'', JStr (requestId env)),
                                            (''error'', JStr (error_text e))]))"
    using assms
    by (simp add: handler_def handle_webhook_def Let_def case_prod_beta clientIP_def
          result_def tr_def split: sum.splits)
  with r show ?thesis by blast
qed

lemma settled_analysis_null:
  "(settled_analysis env = JNull) =
     ((genAI env \<longrightarrow> fails_priority (priority_gemini env))
      \<and> (anthropic env \<longrightarrow> fails_priority (priority_claude env)))"
  using has_scores_null
  by (auto simp: settled_analysis_def parsed_of_def fails_priority_def valid_analysis_def
        split: sum.splits)

section \<open>Claim C8: the partially filled outcome\<close>

text \<open>
  C8, as amended. Take a POST request that the rate limiter admits and whose body carries
  a ticket of the shape the tracker sends, with a key that is not empty: its summary and
  description are texts, its components have names, its labels are texts, and any of them
  may be missing, the description and the components included. The orchestrator returns an
  outcome, and the analysis in it is the one the priority dispatch settled on; it is absent
  exactly when every configured backend failed. When the analysis is absent the handler
  answers 200 with the recommendation "On Hold", the confidence 0 and the importance 0.
  When the analysis is present and its \<^verbatim>\<open>similar_features\<close> is missing, falsy or a
  string, the handler answers 200 with the confidence 0.75 and, as importance, the
  \<^verbatim>\<open>scores.overall_priority\<close> of the analysis as the parser returned it and as
  \<^verbatim>\<open>JSON.stringify\<close> writes it. That value is present; what the client reads is a Number
  exactly when it is a finite Number, a NaN or an infinity being sent as \<^verbatim>\<open>null\<close>.
\<close>

theorem handler_partial_outcome:
  assumes "req_method req = ''POST''"
    and "fst (checkRateLimit (now req) (clientIP req) requestCounts)"
    and "req_body req = Some data" and "body_issue data = Some issue"
    and "key issue = Some k" and "k \<noteq> []"
  shows "res_analysis (fst (processTicketWithFullTriage env k (Some issue) tr)) = settled_analysis env
     \<and> ((settled_analysis env = JNull) =
          ((genAI env \<longrightarrow> fails_priority (priority_gemini env))
           \<and> (anthropic env \<longrightarrow> fails_priority (priority_claude env))))
     \<and> (settled_analysis env = JNull \<longrightarrow>
          (\<exists>b. fst (handler env requestCounts req) = Json 200 b
             \<and> field b ''recommendation'' = Some (JStr ''On Hold'')
             \<and> field b ''confidence'' = Some (JNum (Fin 0))
             \<and> field b ''importance'' = Some (JNum (Fin 0))))
     \<and> (settled_analysis env \<noteq> JNull \<and> summarisable (settled_analysis env) \<longrightarrow>
          (\<exists>b ov. fst (handler env requestCounts req) = Json 200 b
             \<and> field b ''confidence'' = Some (JNum (Fin (3 / 4)))
             \<and> overall_priority_of (settled_analysis env) = Some ov
             \<and> field b ''importance'' = Some (serialized ov)
             \<and> (is_number (serialized ov) = (\<exists>x. ov = JNum (Fin x)))))"
proof (intro conjI impI)
  show "res_analysis (fst (processTicketWithFullTriage env k (Some issue) tr)) = settled_analysis env"
    by (rule processTicket_analysis)
  show "(settled_analysis env = JNull) =
          ((genAI env \<longrightarrow> fails_priority (priority_gemini env))
           \<and> (anthropic env \<longrightarrow> fails_priority (priority_claude env)))"
    by (rule settled_analysis_null)
  obtain result where r: "res_analysis result = settled_analysis env"
    and h: "fst (handler env requestCounts req) =
               (case success_body env k (Some issue) result of
                  Inr response_body \<Rightarrow> json 200 response_body
                | Inl e \<Rightarrow> json 500 (JObj [(''status'', JStr ''error''), (''requestId'', JStr (requestId env)),
                                            (''error'', JStr (error_text e))]))"
    using handler_admitted[OF assms, of env] by blast
  show "\<exists>b. fst (handler env requestCounts req) = Json 200 b
             \<and> field b ''recommendation'' = Some (JStr ''On Hold'')
             \<and> field b ''confidence'' = Some (JNum (Fin 0))
             \<and> field b ''importance'' = Some (JNum (Fin 0))"
    if "settled_analysis env = JNull"
  proof -
    from that r have "res_analysis result = JNull" by simp
    from success_body_absent[OF this, of env k "Some issue"] obtain ps where
      "success_body env k (Some issue) result = Inr (JObj ps)"
      "map_of ps ''recommendation'' = Some (JStr ''On Hold'')"
      "map_of ps ''confidence'' = Some (JNum (Fin 0))"
      "map_of ps ''importance'' = Some (JNum (Fin 0))" by blast
    with h show ?thesis by (simp add: json_def field_def map_of_serialized)
  qed
  show "\<exists>b ov. fst (handler env requestCounts req) = Json 200 b
             \<and> field b ''confidence'' = Some (JNum (Fin (3 / 4)))
             \<and> overall_priority_of (settled_analysis env) = Some ov
             \<and> field b ''importance'' = Some (serialized ov)
             \<and> (is_number (serialized ov) = (\<exists>x. ov = JNum (Fin x)))"
    if a: "settled_analysis env \<noteq> JNull \<and> summarisable (settled_analysis env)"
  proof -
    from a settled_analysis_cases[of env] have hs: "has_scores (settled_analysis env)" by blast
    from a settled_analysis_priority[of env] obtain ov where
      ov: "overall_priority_of (settled_analysis env) = Some ov" "ov \<noteq> JNull" by blast
    from success_body_present[OF r hs _ ov, of env k "Some issue"] a obtain ps where
      "success_body env k (Some issue) result = Inr (JObj ps)"
      "map_of ps ''confidence'' = Some (JNum (Fin (3 / 4)))"
      "map_of ps ''importance'' = Some ov" by blast
    with h ov(1) is_number_serialized[of ov] show ?thesis
      by (simp add: json_def field_def map_of_serialized)
  qed
qed

text \<open>
  The theorem at a ticket that has a key and a summary and nothing else, with Gemini's
  calls throwing and Claude answering in prose: the answer is 200, "On Hold", confidence 0,
  importance 0.
\<close>

theorem handler_partial_outcome_witness:
  "(case fst (handler
        \<lparr>genAI = True, anthropic = True,
         theme_gemini = Inl (Error ''fetch failed''), theme_claude = Inl (Error ''overloaded''),
         priority_gemini = Inl (Error ''fetch failed''), priority_claude = Inr ''I cannot rate this.'',
         themeTime = 120, priorityTime = 340, processingTime = 470, requestId = ''req-1''\<rparr>
        []
        \<lparr>req_method = ''POST'', x_forwarded_for = None, x_real_ip = None,
         req_body = Some \<lparr>body_issue = Some \<lparr>key = Some ''FR-1'',
                             fields' = Some \<lparr>summary = Some ''Export to CSV'', description = None,
                                             components = None, labels = None\<rparr>\<rparr>,
                           webhookEvent = Some ''jira:issue_created''\<rparr>,
         now = 1000\<rparr>) of
      Json status b \<Rightarrow>
        status = 200 \<and> field b ''recommendation'' = Some (JStr ''On Hold'')
        \<and> field b ''confidence'' = Some (JNum (Fin 0)) \<and> field b ''importance'' = Some (JNum (Fin 0))
    | End status \<Rightarrow> False)"
proof -
  define env where "env = \<lparr>genAI = True, anthropic = True,
         theme_gemini = Inl (Error ''fetch failed''), theme_claude = Inl (Error ''overloaded''),
         priority_gemini = Inl (Error ''fetch failed''), priority_claude = Inr ''I cannot rate this.'',
         themeTime = 120, priorityTime = 340, processingTime = 470, requestId = ''req-1''\<rparr>"
  define issue where "issue = \<lparr>key = Some ''FR-1'',
                             fields' = Some \<lparr>summary = Some ''Export to CSV'', description = None,
                                             components = None, labels = None\<rparr>\<rparr>"
  define data where "data = \<lparr>body_issue = Some issue, webhookEvent = Some ''jira:issue_created''\<rparr>"
  define req where "req = \<lparr>req_method = ''POST'', x_forwarded_for = None, x_real_ip = None,
         req_body = Some data, now = 1000\<rparr>"
  have v: "\<not> valid_analysis ''I cannot rate this.''"
    unfolding valid_analysis_def by code_simp
  have n: "settled_analysis env = JNull"
    using v by (simp add: settled_analysis_def env_def fails_priority_def)
  have rl: "fst (checkRateLimit (now req) (clientIP req) [])"
    by (simp add: req_def clientIP_def header_or_def checkRateLimit_def Let_def)
  have "\<exists>b. fst (handler env [] req) = Json 200 b
             \<and> field b ''recommendation'' = Some (JStr ''On Hold'')
             \<and> field b ''confidence'' = Some (JNum (Fin 0))
             \<and> field b ''importance'' = Some (JNum (Fin 0))"
    using handler_partial_outcome[of req "[]" data issue "''FR-1''" env "\<lparr>logged = [], calls = []\<rparr>"] n rl
    by (simp add: req_def data_def issue_def)
  then show ?thesis
    by (auto simp: env_def req_def data_def issue_def)
qed

text \<open>
  C8 as stated fails: the importance need not be numeric. The parser keeps a truthy
  \<^verbatim>\<open>overall_priority\<close> as the backend wrote it, and the handler passes it on: the
  string "high" here. Where the calculator computes NaN, as on an \<^verbatim>\<open>effort_size\<close> that
  names an inherited property, the importance is sent as \<^verbatim>\<open>null\<close>. And an analysis whose
  \<^verbatim>\<open>similar_features\<close> is a number makes the handler answer 500.
\<close>

theorem handler_partial_outcome_counterexample:
  "(case fst (handler
        \<lparr>genAI = True, anthropic = False,
         theme_gemini = Inr ''REPORTING'', theme_claude = Inl (Error ''no client''),
         priority_gemini = Inr ''{\"scores\":{\"overall_priority\":\"high\"},\"priority_recommendation\":\"Fast Track\"}'',
         priority_claude = Inl (Error ''no client''),
         themeTime = 120, priorityTime = 340, processingTime = 470, requestId = ''req-1''\<rparr>
        []
        \<lparr>req_method = ''POST'', x_forwarded_for = None, x_real_ip = None,
         req_body = Some \<lparr>body_issue = Some \<lparr>key = Some ''FR-1'', fields' = None\<rparr>, webhookEvent = None\<rparr>,
         now = 1000\<rparr>) of
      Json status b \<Rightarrow> status = 200 \<and> field b ''importance'' = Some (JStr ''high'')
    | End status \<Rightarrow> False)
   \<and> \<not> is_number (JStr ''high'')
   \<and> (case fst (handler
        \<lparr>genAI = True, anthropic = False,
         theme_gemini = Inr ''REPORTING'', theme_claude = Inl (Error ''no client''),
         priority_gemini = Inr ''{\"scores\":{\"effort_size\":\"constructor\"},\"priority_recommendation\":\"Low\"}'',
         priority_claude = Inl (Error ''no client''),
         themeTime = 120, priorityTime = 340, processingTime = 470, requestId = ''req-1''\<rparr>
        []
        \<lparr>req_method = ''POST'', x_forwarded_for = None, x_real_ip = None,
         req_body = Some \<lparr>body_issue = Some \<lparr>key = Some ''FR-1'', fields' = None\<rparr>, webhookEvent = None\<rparr>,
         now = 1000\<rparr>) of
      Json status b \<Rightarrow> status = 200 \<and> field b ''importance'' = Some JNull
    | End status \<Rightarrow> False)
   \<and> \<not> is_number JNull
   \<and> (case fst (handler
        \<lparr>genAI = True, anthropic = False,
         theme_gemini = Inr ''REPORTING'', theme_claude = Inl (Error ''no client''),
         priority_gemini = Inr ''{\"scores\":{\"overall_priority\":70},\"priority_recommendation\":\"Standard\",\"similar_features\":5}'',
         priority_claude = Inl (Error ''no client''),
         themeTime = 120, priorityTime = 340, processingTime = 470, requestId = ''req-1''\<rparr>
        []
        \<lparr>req_method = ''POST'', x_forwarded_for = None, x_real_ip = None,
         req_body = Some \<lparr>body_issue = Some \<lparr>key = Some ''FR-1'', fields' = None\<rparr>, webhookEvent = None\<rparr>,
         now = 1000\<rparr>) of
      Json status b \<Rightarrow> status = 500 \<and> field b ''importance'' = None
    | End status \<Rightarrow> False)"
  by (intro conjI; code_simp)

lemma parser_priority:
  assumes "parse_with repair resp = Inr v" "v \<noteq> JNull"
  shows "\<exists>parsed sc ov. extracted_json repair resp = Some parsed
           \<and> field parsed ''scores'' = Some sc
           \<and> overall_priority_of v = Some ov
           \<and> (if truthy_opt (field sc ''overall_priority'') then field sc ''overall_priority'' = Some ov
               else \<exists>n. calculateOverallPriority sc = Inr n \<and> ov = JNum n)"
proof -
  obtain parsed where p: "extracted_json repair resp = Some parsed" "validate_and_fill parsed = Inr v"
    using parser_result[OF assms] by blast
  from validate_and_fill_result[OF p(2) assms(2)] obtain sc where
    sc: "field parsed ''scores'' = Some sc"
    and d: "(truthy_opt (field sc ''overall_priority'') \<and> v = parsed)
              \<or> (\<not> truthy_opt (field sc ''overall_priority'')
                  \<and> (\<exists>n sc'. calculateOverallPriority sc = Inr n
                        \<and> Put sc ''overall_priority'' (JNum n) = Inr sc'
                        \<and> Put parsed ''scores'' sc' = Inr v))"
    by blast
  from d show ?thesis
  proof
    assume a: "truthy_opt (field sc ''overall_priority'') \<and> v = parsed"
    then obtain ov where ov: "field sc ''overall_priority'' = Some ov"
      by (cases "field sc ''overall_priority''") auto
    have "overall_priority_of v = Some ov" using a sc ov by (simp add: overall_priority_of_def)
    with p(1) sc a ov show ?thesis by auto
  next
    assume a: "\<not> truthy_opt (field sc ''overall_priority'')
                  \<and> (\<exists>n sc'. calculateOverallPriority sc = Inr n
                        \<and> Put sc ''overall_priority'' (JNum n) = Inr sc'
                        \<and> Put parsed ''scores'' sc' = Inr v)"
    then obtain n sc' where n: "calculateOverallPriority sc = Inr n"
      "Put sc ''overall_priority'' (JNum n) = Inr sc'" "Put parsed ''scores'' sc' = Inr v" by blast
    have "overall_priority_of v = Some (JNum n)"
      using field_Put[OF n(3), of "''scores''"] field_Put[OF n(2), of "''overall_priority''"]
      by (simp add: overall_priority_of_def)
    with p(1) sc a n(1) show ?thesis by auto
  qed
qed

lemma computed_is_percentage:
  assumes "in_range (map_of ps ''business_impact'') \<and> in_range (map_of ps ''strategic_fit'')
    \<and> in_range (map_of ps ''cross_client_value'') \<and> in_range (map_of ps ''effort_score'')
    \<and> size_label (map_of ps ''effort_size'')"
    and "calculateOverallPriority (JObj ps) = Inr n"
  shows "is_percentage (JNum n)"
proof -
  from calculateOverallPriority_in_range[OF assms(1)] obtain r where
    "calculateOverallPriority (JObj ps) = Inr (Fin (of_int r))" "0 \<le> r" "r \<le> 100" by blast
  with assms(2) show ?thesis by (auto simp: is_percentage_def)
qed

section \<open>Claim C2: the overall priority of a returned analysis\<close>

text \<open>
  C2, as amended. In every outcome the orchestrator returns in which an analysis is
  present, the analysis is what the parser made of the answer of one of the two backends,
  and its \<^verbatim>\<open>scores.overall_priority\<close> is present. It is the value the backend supplied
  when that is truthy, kept as it is, whatever its type and size; otherwise it is the
  Number the Priority Calculator computes from the scores, which is an integer in
  \<open>[0, 100]\<close> when the scores are an object whose four score fields are each missing or a
  Number in \<open>[0, 100]\<close> and whose \<^verbatim>\<open>effort_size\<close> is missing or a string other than an
  inherited property name.
\<close>

theorem outcome_overall_priority:
  assumes "res_analysis (fst (processTicketWithFullTriage env issueKey issueData tr)) = an"
    and "an \<noteq> JNull"
  shows "\<exists>resp parsed sc ov.
           (priority_gemini env = Inr resp \<or> priority_claude env = Inr resp)
         \<and> parseAIResponse_repairing resp = Inr an
         \<and> extracted_json repair_braces resp = Some parsed
         \<and> field parsed ''scores'' = Some sc
         \<and> overall_priority_of an = Some ov
         \<and> (if truthy_opt (field sc ''overall_priority'') then field sc ''overall_priority'' = Some ov
             else (\<exists>n. calculateOverallPriority sc = Inr n \<and> ov = JNum n)
                \<and> (\<forall>ps. sc = JObj ps
                      \<and> in_range (map_of ps ''business_impact'') \<and> in_range (map_of ps ''strategic_fit'')
                      \<and> in_range (map_of ps ''cross_client_value'') \<and> in_range (map_of ps ''effort_score'')
                      \<and> size_label (map_of ps ''effort_size'')
                      \<longrightarrow> is_percentage ov))"
proof -
  have an: "an = settled_analysis env" using assms(1) by (simp add: processTicket_analysis)
  with assms(2) settled_analysis_cases[of env] obtain resp where
    r: "priority_gemini env = Inr resp \<or> priority_claude env = Inr resp"
    and pr: "parseAIResponse_repairing resp = Inr an" by auto
  from pr have "parse_with repair_braces resp = Inr an" by (simp add: parseAIResponse_repairing_def)
  from parser_priority[OF this assms(2)] obtain parsed sc ov where
    p: "extracted_json repair_braces resp = Some parsed" "field parsed ''scores'' = Some sc"
      "overall_priority_of an = Some ov"
    and c: "if truthy_opt (field sc ''overall_priority'') then field sc ''overall_priority'' = Some ov
            else \<exists>n. calculateOverallPriority sc = Inr n \<and> ov = JNum n"
    by blast
  have "if truthy_opt (field sc ''overall_priority'') then field sc ''overall_priority'' = Some ov
        else (\<exists>n. calculateOverallPriority sc = Inr n \<and> ov = JNum n)
           \<and> (\<forall>ps. sc = JObj ps
                 \<and> in_range (map_of ps ''business_impact'') \<and> in_range (map_of ps ''strategic_fit'')
                 \<and> in_range (map_of ps ''cross_client_value'') \<and> in_range (map_of ps ''effort_score'')
                 \<and> size_label (map_of ps ''effort_size'')
                 \<longrightarrow> is_percentage ov)"
    using c computed_is_percentage by (auto split: if_splits)
  with r pr p show ?thesis by blast
qed

text \<open>
  The theorem where Gemini answers with the four scores of the high-priority test case and
  no overall priority: the outcome carries the computed 85, an integer in \<open>[0, 100]\<close>.
\<close>

theorem outcome_overall_priority_witness:
  "\<exists>ov. overall_priority_of
           (res_analysis (fst (processTicketWithFullTriage
              \<lparr>genAI = True, anthropic = False,
               theme_gemini = Inr ''REPORTING'', theme_claude = Inl (Error ''no client''),
               priority_gemini = Inr ''{\"scores\":{\"business_impact\":90,\"strategic_fit\":85,\"cross_client_value\":80,\"effort_size\":\"S\"},\"priority_recommendation\":\"Fast Track\"}'',
               priority_claude = Inl (Error ''no client''),
               themeTime = 120, priorityTime = 340, processingTime = 470, requestId = ''req-1''\<rparr>
              ''FR-1'' None \<lparr>logged = [], calls = []\<rparr>))) = Some ov
        \<and> is_percentage ov"
proof -
  define answer where "answer = ''{\"scores\":{\"business_impact\":90,\"strategic_fit\":85,\"cross_client_value\":80,\"effort_size\":\"S\"},\"priority_recommendation\":\"Fast Track\"}''"
  define env where "env = \<lparr>genAI = True, anthropic = False,
               theme_gemini = Inr ''REPORTING'', theme_claude = Inl (Error ''no client''),
               priority_gemini = Inr answer,
               priority_claude = Inl (Error ''no client''),
               themeTime = 120, priorityTime = 340, processingTime = 470, requestId = ''req-1''\<rparr>"
  define ps where "ps = [(''business_impact'', JNum (Fin 90)), (''strategic_fit'', JNum (Fin 85)),
                         (''cross_client_value'', JNum (Fin 80)), (''effort_size'', JStr ''S'')]"
  define an where "an = res_analysis (fst (processTicketWithFullTriage env ''FR-1'' None \<lparr>logged = [], calls = []\<rparr>))"
  have ex: "extracted_json repair_braces answer =
              Some (JObj [(''scores'', JObj ps), (''priority_recommendation'', JStr ''Fast Track'')])"
    unfolding answer_def ps_def by code_simp
  have nn: "an \<noteq> JNull"
    unfolding an_def env_def answer_def by code_simp
  from outcome_overall_priority[of env "''FR-1''" None "\<lparr>logged = [], calls = []\<rparr>" an] nn
  obtain resp parsed sc ov where
    r: "priority_gemini env = Inr resp \<or> priority_claude env = Inr resp"
    and p: "extracted_json repair_braces resp = Some parsed" "field parsed ''scores'' = Some sc"
      "overall_priority_of an = Some ov"
    and c: "if truthy_opt (field sc ''overall_priority'') then field sc ''overall_priority'' = Some ov
             else (\<exists>n. calculateOverallPriority sc = Inr n \<and> ov = JNum n)
                \<and> (\<forall>ps. sc = JObj ps
                      \<and> in_range (map_of ps ''business_impact'') \<and> in_range (map_of ps ''strategic_fit'')
                      \<and> in_range (map_of ps ''cross_client_value'') \<and> in_range (map_of ps ''effort_score'')
                      \<and> size_label (map_of ps ''effort_size'')
                      \<longrightarrow> is_percentage ov)"
    unfolding an_def by blast
  from r have "resp = answer" by (simp add: env_def)
  with p ex have sc: "sc = JObj ps" by (auto simp: field_def)
  have "\<not> truthy_opt (field sc ''overall_priority'')"
    by (simp add: sc ps_def field_def)
  with c sc have "is_percentage ov"
    by (simp add: ps_def in_range_def size_label_def inherited_names_def)
  with p(3) show ?thesis
    unfolding an_def env_def answer_def by blast
qed

text \<open>
  C2 as stated fails: a backend answer with an overall priority of 150 comes back in the
  outcome as 150, and one with "high" as that string.
\<close>

theorem outcome_overall_priority_counterexample:
  "overall_priority_of
     (res_analysis (fst (processTicketWithFullTriage
        \<lparr>genAI = True, anthropic = False,
         theme_gemini = Inr ''REPORTING'', theme_claude = Inl (Error ''no client''),
         priority_gemini = Inr ''{\"scores\":{\"overall_priority\":150},\"priority_recommendation\":\"Fast Track\"}'',
         priority_claude = Inl (Error ''no client''),
         themeTime = 120, priorityTime = 340, processingTime = 470, requestId = ''req-1''\<rparr>
        ''FR-1'' None \<lparr>logged = [], calls = []\<rparr>))) = Some (JNum (Fin 150))
   \<and> \<not> is_percentage (JNum (Fin 150))
   \<and> overall_priority_of
     (res_analysis (fst (processTicketWithFullTriage
        \<lparr>genAI = True, anthropic = False,
         theme_gemini = Inr ''REPORTING'', theme_claude = Inl (Error ''no client''),
         priority_gemini = Inr ''{\"scores\":{\"overall_priority\":\"high\"},\"priority_recommendation\":\"Fast Track\"}'',
         priority_claude = Inl (Error ''no client''),
         themeTime = 120, priorityTime = 340, processingTime = 470, requestId = ''req-1''\<rparr>
        ''FR-1'' None \<lparr>logged = [], calls = []\<rparr>))) = Some (JStr ''high'')
   \<and> \<not> is_percentage (JStr ''high'')"
  by (intro conjI; code_simp)
end
